theory Spec2Isabelle
  imports Complex_Main "HOL-Library.Char_ord" "HOL-Library.List_Lexorder"
    "HOL-Library.Product_Lexorder"
begin

section \<open>UrbanDrive: social validation of incidents and event-driven gamification\<close>

text \<open>
  A shallow embedding of the validation state machine of the traffic service
  (\<^verbatim>\<open>traffic-service/app/main.py\<close>, \<^verbatim>\<open>models.py\<close>, \<^verbatim>\<open>services.py\<close>,
  \<^verbatim>\<open>rabbitmq_producer.py\<close>) and of the reward pipeline of the gamification service
  (\<^verbatim>\<open>gamification-service/app/rabbitmq_consumer.py\<close>, \<^verbatim>\<open>gamification_logic.py\<close>,
  \<^verbatim>\<open>redis_client.py\<close>).

  Conventions of the embedding.
  \<^item> Python integers are \<open>int\<close>; strings are \<open>string\<close>.
  \<^item> The relational store, the singleton producer and the Redis store are explicit
    states that every operation takes and returns.
  \<^item> What the outside world decides during one call (the answer of the severity
    service, whether the broker accepts a connection or a message, whether the database
    accepts the commit, whether the refresh after the commit returns) is an explicit
    argument of the operation.
  \<^item> An exception is a value: an endpoint returns \<open>HTTPException + response\<close>.
  \<^item> Human-readable texts (the \<^verbatim>\<open>detail\<close> of an error, the \<^verbatim>\<open>mensaje\<close> of a
    response) are constructors of a datatype, one per text of the source, carrying the
    numbers the source formats into the text.
\<close>

subsection \<open>JSON values and message bodies\<close>

text \<open>
  The values \<^verbatim>\<open>json.dumps\<close> and \<^verbatim>\<open>json.loads\<close> exchange. Numbers are the integers the
  services put in their payloads. A body on the wire is either the encoding of a value
  or bytes that do not decode (\<^verbatim>\<open>json.JSONDecodeError\<close>).
\<close>

datatype json =
    JNull
  | JBool bool
  | JNum int
  | JStr string
  | JArr "json list"
  | JObj "(string \<times> json) list"

datatype wire_body = Encoded json | Undecodable string

definition json_dumps :: "json \<Rightarrow> wire_body" where
  "json_dumps v = Encoded v"

fun json_loads :: "wire_body \<Rightarrow> json option" where
  "json_loads (Encoded v) = Some v"
| "json_loads (Undecodable s) = None"

text \<open>\<^verbatim>\<open>d.get(k)\<close> on a Python dict: the value stored under the key, or \<^verbatim>\<open>None\<close>.\<close>

definition dict_get :: "(string \<times> json) list \<Rightarrow> string \<Rightarrow> json" where
  "dict_get d k = (case map_of d k of None \<Rightarrow> JNull | Some v \<Rightarrow> v)"

text \<open>Python truthiness of a decoded JSON value, as used by \<^verbatim>\<open>x or {}\<close>.\<close>

fun truthy :: "json \<Rightarrow> bool" where
  "truthy JNull = False"
| "truthy (JBool b) = b"
| "truthy (JNum n) = (n \<noteq> 0)"
| "truthy (JStr s) = (s \<noteq> [])"
| "truthy (JArr xs) = (xs \<noteq> [])"
| "truthy (JObj kvs) = (kvs \<noteq> [])"

subsection \<open>Data model of the traffic service (\<^verbatim>\<open>models.py\<close>, \<^verbatim>\<open>schemas.py\<close>)\<close>

datatype SeveridadEnum = BAJA | MEDIA | ALTA | CRITICA

datatype EstadoIncidenteEnum = PENDIENTE | VALIDADO | VERIFICADO | ARCHIVADO

text \<open>The \<^verbatim>\<open>.value\<close> of a severity.\<close>

fun severidad_value :: "SeveridadEnum \<Rightarrow> string" where
  "severidad_value BAJA = ''baja''"
| "severidad_value MEDIA = ''media''"
| "severidad_value ALTA = ''alta''"
| "severidad_value CRITICA = ''critica''"

text \<open>
  The request and response schemas. The readable message of a validation response is
  one of three texts of the source, each with the count it prints.
\<close>

record IncidenteCreate =
  tipo :: string
  descripcion :: string
  latitud :: real
  longitud :: real
  usuario_id :: int

record ValidacionRequest =
  usuario_id :: int

datatype mensaje =
    YaVerificado int
  | ReporteVerificado int
  | ValidacionRegistrada int

record ValidacionResponse =
  incidente_id :: int
  usuario_id :: int
  validaciones_count :: int
  estado :: EstadoIncidenteEnum
  verificado :: bool
  mensaje :: mensaje

text \<open>
  A row of \<^verbatim>\<open>validaciones_incidentes\<close>. Its own primary key and its timestamp play no
  part in any rule and are left out.
\<close>

record ValidacionIncidente =
  incidente_id :: int
  usuario_id :: int

text \<open>
  A row of \<^verbatim>\<open>incidentes_trafico\<close>, without its primary key (the table below is keyed by
  it) and without the timestamps the server fills in.
\<close>

record Incidente =
  tipo :: string
  descripcion :: string
  latitud :: real
  longitud :: real
  severidad :: SeveridadEnum
  estado :: EstadoIncidenteEnum
  usuario_id :: int
  validaciones_count :: int

text \<open>
  The relational store: the incidents by primary key, the validation rows in insertion
  order, and the sequence from which the next primary key is taken.
\<close>

record database =
  incidentes :: "int \<rightharpoonup> Incidente"
  validaciones :: "ValidacionIncidente list"
  next_id :: int

text \<open>
  The errors of the endpoints: a status code and a detail. The details are
  \<^verbatim>\<open>"Reporte con ID {id} no encontrado"\<close>, \<^verbatim>\<open>"No puedes validar tu propio reporte"\<close>,
  \<^verbatim>\<open>"Ya has validado este reporte anteriormente"\<close>, and the two texts of the
  internal-error handlers.
\<close>

datatype detail =
    ReporteNoEncontrado int
  | NoPuedesValidarTuPropioReporte
  | YaHasValidadoEsteReporte
  | ErrorAlValidarElReporte
  | ErrorAlReportarElIncidente

datatype HTTPException = HTTPException (status_code: int) (detail: detail)

subsection \<open>The severity client (\<^verbatim>\<open>services.py\<close>)\<close>

text \<open>
  What the body of the \<^verbatim>\<open>try\<close> in \<^verbatim>\<open>clasificar_severidad\<close> can end in: the client's
  timeout (set to 10 seconds) expires, \<^verbatim>\<open>raise_for_status\<close> raises on an error status,
  the request fails in transport, anything else raises (a body that is not JSON, a
  response that fails schema validation), or the response validates and carries a
  severity.
\<close>

datatype oracle_outcome =
    TimeoutException
  | HTTPStatusError int
  | RequestError
  | UnexpectedError
  | Classified SeveridadEnum

fun clasificar_severidad :: "oracle_outcome \<Rightarrow> SeveridadEnum" where
  "clasificar_severidad (Classified s) = s"
| "clasificar_severidad TimeoutException = MEDIA"
| "clasificar_severidad (HTTPStatusError c) = MEDIA"
| "clasificar_severidad RequestError = MEDIA"
| "clasificar_severidad UnexpectedError = MEDIA"

subsection \<open>The event publisher (\<^verbatim>\<open>rabbitmq_producer.py\<close>)\<close>

datatype DeliveryMode = NOT_PERSISTENT | PERSISTENT

record Message =
  body :: wire_body
  delivery_mode :: DeliveryMode
  content_type :: string

text \<open>A message as the broker receives it: the exchange, the routing key, the message.\<close>

record publication =
  exchange :: string
  routing_key :: string
  message :: Message

text \<open>
  What the broker does during one call: whether the connection object reports itself
  closed, whether a connection attempt succeeds, whether the exchange accepts the
  message.
\<close>

record broker_env =
  connection_is_closed :: bool
  connect_ok :: bool
  publish_ok :: bool

text \<open>The producer object: of its fields only \<^verbatim>\<open>_is_connected\<close> is read by the code below.\<close>

record RabbitMQProducer =
  is_connected :: bool

definition RabbitMQProducer_EXCHANGE_NAME :: string where
  "RabbitMQProducer_EXCHANGE_NAME = ''urban_drive_events''"

text \<open>
  \<^verbatim>\<open>_connect\<close> and \<^verbatim>\<open>ensure_connected\<close> return the producer and whether they returned
  (\<open>True\<close>) or raised (\<open>False\<close>).
\<close>

definition connect :: "broker_env \<Rightarrow> RabbitMQProducer \<Rightarrow> bool \<times> RabbitMQProducer" where
  "connect env p =
     (if connect_ok env then (True, p\<lparr>is_connected := True\<rparr>)
      else (False, p\<lparr>is_connected := False\<rparr>))"

definition ensure_connected :: "broker_env \<Rightarrow> RabbitMQProducer \<Rightarrow> bool \<times> RabbitMQProducer" where
  "ensure_connected env p =
     (if \<not> is_connected p \<or> connection_is_closed env then connect env p else (True, p))"

text \<open>
  \<^verbatim>\<open>publish_event\<close>: the returned boolean, the producer afterwards, and the messages the
  broker received (none or one).
\<close>

definition publish_event ::
  "broker_env \<Rightarrow> RabbitMQProducer \<Rightarrow> string \<Rightarrow> int \<Rightarrow> int \<Rightarrow> string option \<Rightarrow>
   (string \<times> json) list \<Rightarrow> bool \<times> RabbitMQProducer \<times> publication list" where
  "publish_event env p event_type user_id puntos_base routing_key_opt extra_data =
     (case ensure_connected env p of
        (False, p') \<Rightarrow> (False, p'\<lparr>is_connected := False\<rparr>, [])
      | (True, p') \<Rightarrow>
          (let message_data =
                 [(''event_type'', JStr event_type),
                  (''user_id'', JNum user_id),
                  (''puntos_base'', JNum puntos_base)] @ extra_data;
               rk = (case routing_key_opt of None \<Rightarrow> event_type | Some k \<Rightarrow> k);
               msg = \<lparr>body = json_dumps (JObj message_data),
                      delivery_mode = PERSISTENT,
                      content_type = ''application/json''\<rparr>
           in if publish_ok env
              then (True, p', [\<lparr>exchange = RabbitMQProducer_EXCHANGE_NAME, routing_key = rk, message = msg\<rparr>])
              else (False, p'\<lparr>is_connected := False\<rparr>, [])))"

text \<open>
  \<^verbatim>\<open>get_producer\<close> on the module-level singleton: the producer it returns (\<open>None\<close> when it
  raises) and the singleton afterwards. The singleton is assigned before the first
  connection is attempted, so it stays assigned when that attempt raises.
\<close>

definition get_producer ::
  "broker_env \<Rightarrow> RabbitMQProducer option \<Rightarrow> RabbitMQProducer option \<times> RabbitMQProducer option" where
  "get_producer env inst =
     (case inst of
        None \<Rightarrow>
          (case ensure_connected env \<lparr>is_connected = False\<rparr> of
             (True, p) \<Rightarrow> (Some p, Some p)
           | (False, p) \<Rightarrow> (None, Some p))
      | Some p \<Rightarrow> (Some p, Some p))"

text \<open>
  The guarded block \<^verbatim>\<open>try: producer = await get_producer(); await
  producer.publish_event(...) except Exception: log\<close> that both endpoints use: the
  singleton afterwards and the messages the broker received.
\<close>

definition try_publish ::
  "broker_env \<Rightarrow> RabbitMQProducer option \<Rightarrow> string \<Rightarrow> int \<Rightarrow> int \<Rightarrow>
   (string \<times> json) list \<Rightarrow> RabbitMQProducer option \<times> publication list" where
  "try_publish env inst event_type user_id puntos_base extra_data =
     (case get_producer env inst of
        (None, inst') \<Rightarrow> (inst', [])
      | (Some p, inst') \<Rightarrow>
          (case publish_event env p event_type user_id puntos_base None extra_data of
             (ok, p', pubs) \<Rightarrow> (Some p', pubs)))"

subsection \<open>The application state and its endpoints (\<^verbatim>\<open>main.py\<close>)\<close>

record app =
  db :: database
  producer_instance :: "RabbitMQProducer option"

text \<open>
  What the outside world decides during one request: the outcome of the classifier
  call, the behaviour of the broker, whether \<^verbatim>\<open>db.commit()\<close> returns or raises, and
  whether the \<^verbatim>\<open>db.refresh(...)\<close> that follows a commit returns or raises.
\<close>

record request_env =
  severity_answer :: oracle_outcome
  broker :: broker_env
  commit_ok :: bool
  refresh_ok :: bool

text \<open>\<^verbatim>\<open>startup_event\<close>: a failure of \<^verbatim>\<open>get_producer\<close> is logged and startup goes on.\<close>

definition startup_event :: "broker_env \<Rightarrow> app \<Rightarrow> app" where
  "startup_event env s = s\<lparr>producer_instance := snd (get_producer env (producer_instance s))\<rparr>"

text \<open>
  \<^verbatim>\<open>reportar_incidente\<close>. The row is added and committed; a commit the database does not
  accept raises, the handler rolls back and answers 500. The refresh that follows the
  commit is inside the same \<^verbatim>\<open>try\<close>: when it raises, the handler answers 500 as well, and
  its rollback finds nothing to undo, so the committed row stays. After commit and
  refresh the event \<^verbatim>\<open>reporte_creado\<close> is published inside its own \<^verbatim>\<open>try\<close>. The result is
  the response (the primary key and the stored row), the state afterwards and the
  messages the broker received. \<open>nuevo_incidente\<close> is the row built by \<^verbatim>\<open>Incidente(...)\<close>.
\<close>

definition nuevo_incidente :: "IncidenteCreate \<Rightarrow> SeveridadEnum \<Rightarrow> Incidente" where
  "nuevo_incidente incidente sev =
     \<lparr>tipo = IncidenteCreate.tipo incidente,
      descripcion = IncidenteCreate.descripcion incidente,
      latitud = IncidenteCreate.latitud incidente,
      longitud = IncidenteCreate.longitud incidente,
      severidad = sev,
      estado = PENDIENTE,
      usuario_id = IncidenteCreate.usuario_id incidente,
      validaciones_count = 0\<rparr>"

definition reportar_incidente ::
  "request_env \<Rightarrow> IncidenteCreate \<Rightarrow> app \<Rightarrow>
   (HTTPException + int \<times> Incidente) \<times> app \<times> publication list" where
  "reportar_incidente env incidente s =
     (let sev = clasificar_severidad (severity_answer env);
          db_incidente = nuevo_incidente incidente sev
      in if \<not> commit_ok env
         then (Inl (HTTPException 500 ErrorAlReportarElIncidente), s, [])
         else
           (let new_id = next_id (db s);
                db' = (db s)\<lparr>incidentes := (incidentes (db s))(new_id \<mapsto> db_incidente),
                              next_id := new_id + 1\<rparr>
            in if \<not> refresh_ok env
               then (Inl (HTTPException 500 ErrorAlReportarElIncidente), s\<lparr>db := db'\<rparr>, [])
               else
                 (let (inst', pubs) =
                        try_publish (broker env) (producer_instance s) ''reporte_creado''
                          (IncidenteCreate.usuario_id incidente) 10
                          [(''incidente_id'', JNum new_id),
                           (''tipo_incidente'', JStr (IncidenteCreate.tipo incidente)),
                           (''severidad'', JStr (severidad_value sev))]
                  in (Inr (new_id, db_incidente), \<lparr>db = db', producer_instance = inst'\<rparr>,
                      pubs))))"

text \<open>
  The query for an earlier validation of the same incident by the same user:
  \<^verbatim>\<open>filter(...).first()\<close> gives the first matching row or \<^verbatim>\<open>None\<close>.
\<close>

definition validacion_existente :: "database \<Rightarrow> int \<Rightarrow> int \<Rightarrow> ValidacionIncidente option" where
  "validacion_existente d reporte_id uid =
     find (\<lambda>v. incidente_id v = reporte_id \<and> ValidacionIncidente.usuario_id v = uid)
       (validaciones d)"

text \<open>
  \<^verbatim>\<open>validar_reporte\<close>, in the order of the source: the lookup of the incident, the owner
  check, the lookup of an earlier validation of the same user, the short circuit on a
  verified incident, then the new row, the increment and the threshold. The event
  \<^verbatim>\<open>reporte_verificado\<close> is published inside its own \<^verbatim>\<open>try\<close> before the commit. A commit
  the database does not accept raises; the handler rolls back and answers 500. The
  refresh that follows the commit is inside the same \<^verbatim>\<open>try\<close>: when it raises, the
  handler answers 500 as well, and its rollback finds nothing to undo, so the row and
  the counter stay committed.
\<close>

definition validar_reporte ::
  "request_env \<Rightarrow> int \<Rightarrow> ValidacionRequest \<Rightarrow> app \<Rightarrow>
   (HTTPException + ValidacionResponse) \<times> app \<times> publication list" where
  "validar_reporte env reporte_id validacion s =
     (case incidentes (db s) reporte_id of
        None \<Rightarrow> (Inl (HTTPException 404 (ReporteNoEncontrado reporte_id)), s, [])
      | Some incidente \<Rightarrow>
          if usuario_id incidente = ValidacionRequest.usuario_id validacion
          then (Inl (HTTPException 400 NoPuedesValidarTuPropioReporte), s, [])
          else if validacion_existente (db s) reporte_id
                    (ValidacionRequest.usuario_id validacion) \<noteq> None
          then (Inl (HTTPException 400 YaHasValidadoEsteReporte), s, [])
          else if estado incidente = VERIFICADO
          then (Inr \<lparr>ValidacionResponse.incidente_id = reporte_id,
                     ValidacionResponse.usuario_id = ValidacionRequest.usuario_id validacion,
                     ValidacionResponse.validaciones_count = validaciones_count incidente,
                     ValidacionResponse.estado = estado incidente,
                     verificado = True,
                     mensaje = YaVerificado (validaciones_count incidente)\<rparr>, s, [])
          else
            (let nueva_validacion =
                   \<lparr>incidente_id = reporte_id,
                    ValidacionIncidente.usuario_id = ValidacionRequest.usuario_id validacion\<rparr>;
                 n = validaciones_count incidente + 1;
                 llego = (n \<ge> 3);
                 incidente' =
                   (if llego then incidente\<lparr>validaciones_count := n, estado := VERIFICADO\<rparr>
                    else incidente\<lparr>validaciones_count := n\<rparr>);
                 (inst', pubs) =
                   (if llego
                    then try_publish (broker env) (producer_instance s) ''reporte_verificado''
                           (usuario_id incidente) 50
                           [(''incidente_id'', JNum reporte_id),
                            (''validaciones_count'', JNum n),
                            (''tipo_incidente'', JStr (tipo incidente)),
                            (''severidad'', JStr (severidad_value (severidad incidente)))]
                    else (producer_instance s, []));
                 db' = (db s)\<lparr>incidentes := (incidentes (db s))(reporte_id \<mapsto> incidente'),
                               validaciones := validaciones (db s) @ [nueva_validacion]\<rparr>
             in if \<not> commit_ok env
                then (Inl (HTTPException 500 ErrorAlValidarElReporte),
                      s\<lparr>producer_instance := inst'\<rparr>, pubs)
                else if \<not> refresh_ok env
                then (Inl (HTTPException 500 ErrorAlValidarElReporte),
                      \<lparr>db = db', producer_instance = inst'\<rparr>, pubs)
                else
                  (Inr \<lparr>ValidacionResponse.incidente_id = reporte_id,
                        ValidacionResponse.usuario_id = ValidacionRequest.usuario_id validacion,
                        ValidacionResponse.validaciones_count = n,
                        ValidacionResponse.estado = estado incidente',
                        verificado = llego,
                        mensaje = (if llego then ReporteVerificado n else ValidacionRegistrada n)\<rparr>,
                   \<lparr>db = db', producer_instance = inst'\<rparr>,
                   pubs)))"

subsection \<open>The counter store (\<^verbatim>\<open>redis_client.py\<close>)\<close>

text \<open>
  The keys \<^verbatim>\<open>user:{id}:xp\<close>, \<^verbatim>\<open>user:{id}:coins\<close> and \<^verbatim>\<open>user:{id}:badges\<close> are maps from
  the user id (the key is an injective rendering of it); a missing string key is
  \<open>None\<close>, a missing set is the empty set. The members of a set are kept as a list
  without repetition; Redis returns them in no particular order. The sorted set
  \<^verbatim>\<open>leaderboard:xp\<close> is the list of its members, each the user id whose decimal text is
  the member, with its score. Scores are the integer totals the client writes.
\<close>

record redis_store =
  xp_keys :: "int \<rightharpoonup> int"
  coins_keys :: "int \<rightharpoonup> int"
  badges_keys :: "int \<Rightarrow> string list"
  leaderboard_xp :: "(int \<times> int) list"

text \<open>\<^verbatim>\<open>str(n)\<close> for an integer: the text of a sorted-set member.\<close>

fun str_nat :: "nat \<Rightarrow> string" where
  "str_nat n =
     (if n < 10 then [''0123456789'' ! n]
      else str_nat (n div 10) @ [''0123456789'' ! (n mod 10)])"

definition str_int :: "int \<Rightarrow> string" where
  "str_int i = (if i < 0 then CHR ''-'' # str_nat (nat (- i)) else str_nat (nat i))"

text \<open>\<^verbatim>\<open>INCRBY\<close>: a missing key counts as 0; the new value is stored and returned.\<close>

definition incrby :: "(int \<rightharpoonup> int) \<Rightarrow> int \<Rightarrow> int \<Rightarrow> int \<times> (int \<rightharpoonup> int)" where
  "incrby m k n =
     (let total = (case m k of None \<Rightarrow> 0 | Some v \<Rightarrow> v) + n in (total, m(k \<mapsto> total)))"

text \<open>\<^verbatim>\<open>ZADD\<close> of one member: its score is replaced, or the member is added.\<close>

fun zadd :: "(int \<times> int) list \<Rightarrow> int \<Rightarrow> int \<Rightarrow> (int \<times> int) list" where
  "zadd [] m sc = [(m, sc)]"
| "zadd ((m', sc') # z) m sc = (if m' = m then (m, sc) # z else (m', sc') # zadd z m sc)"

text \<open>
  \<^verbatim>\<open>ZREVRANGE key start stop WITHSCORES\<close>: the members from the highest score to the
  lowest, equal scores by the text of the member from the greatest to the least; the
  indices are inclusive, a negative index counts from the end, and a range that
  reaches past the end is cut.
\<close>

definition zrevrange :: "(int \<times> int) list \<Rightarrow> int \<Rightarrow> int \<Rightarrow> (int \<times> int) list" where
  "zrevrange z start stop =
     (let ordered = rev (sort_key (\<lambda>(m, sc). (sc, str_int m)) z);
          llen = int (length ordered);
          start1 = (if start < 0 then llen + start else start);
          stop1 = (if stop < 0 then llen + stop else stop);
          start2 = (if start1 < 0 then 0 else start1)
      in if start2 > stop1 \<or> start2 \<ge> llen then []
         else (let stop2 = (if stop1 \<ge> llen then llen - 1 else stop1)
               in take (nat (stop2 - start2 + 1)) (drop (nat start2) ordered)))"

text \<open>\<^verbatim>\<open>SADD\<close> of one member.\<close>

definition sadd :: "string list \<Rightarrow> string \<Rightarrow> string list" where
  "sadd members b = (if b \<in> set members then members else members @ [b])"

definition add_xp :: "redis_store \<Rightarrow> int \<Rightarrow> int \<Rightarrow> int \<times> redis_store" where
  "add_xp r user_id xp =
     (case incrby (xp_keys r) user_id xp of
        (total_xp, m) \<Rightarrow>
          (total_xp, r\<lparr>xp_keys := m,
                        leaderboard_xp := zadd (leaderboard_xp r) user_id total_xp\<rparr>))"

definition get_xp :: "redis_store \<Rightarrow> int \<Rightarrow> int" where
  "get_xp r user_id = (case xp_keys r user_id of None \<Rightarrow> 0 | Some v \<Rightarrow> v)"

definition add_coins :: "redis_store \<Rightarrow> int \<Rightarrow> int \<Rightarrow> int \<times> redis_store" where
  "add_coins r user_id coins =
     (case incrby (coins_keys r) user_id coins of
        (total_coins, m) \<Rightarrow> (total_coins, r\<lparr>coins_keys := m\<rparr>))"

definition get_coins :: "redis_store \<Rightarrow> int \<Rightarrow> int" where
  "get_coins r user_id = (case coins_keys r user_id of None \<Rightarrow> 0 | Some v \<Rightarrow> v)"

definition add_badge :: "redis_store \<Rightarrow> int \<Rightarrow> string \<Rightarrow> redis_store" where
  "add_badge r user_id badge =
     r\<lparr>badges_keys := (badges_keys r)(user_id := sadd (badges_keys r user_id) badge)\<rparr>"

definition get_badges :: "redis_store \<Rightarrow> int \<Rightarrow> string list" where
  "get_badges r user_id = badges_keys r user_id"

record LeaderboardEntry =
  rank :: int
  user_id :: int
  xp :: int

text \<open>The loop over \<^verbatim>\<open>enumerate(results, start=1)\<close>, with the running index.\<close>

fun leaderboard_rows :: "int \<Rightarrow> (int \<times> int) list \<Rightarrow> LeaderboardEntry list" where
  "leaderboard_rows idx [] = []"
| "leaderboard_rows idx ((m, sc) # results) =
     \<lparr>rank = idx, user_id = m, xp = sc\<rparr> # leaderboard_rows (idx + 1) results"

definition get_leaderboard :: "redis_store \<Rightarrow> int \<Rightarrow> LeaderboardEntry list" where
  "get_leaderboard r limit = leaderboard_rows 1 (zrevrange (leaderboard_xp r) 0 (limit - 1))"

text \<open>
  The level of a profile, \<^verbatim>\<open>int(math.sqrt(max(xp, 0) / 100)) + 1\<close>: the integer part of
  the square root of a quotient is the integer square root of the integer quotient.
  \<open>isqrt n\<close> is the greatest \<open>k\<close> with \<open>k * k \<le> n\<close>, found from \<open>n\<close> downwards.
\<close>

fun isqrt_from :: "nat \<Rightarrow> nat \<Rightarrow> nat" where
  "isqrt_from 0 n = 0"
| "isqrt_from (Suc k) n = (if Suc k * Suc k \<le> n then Suc k else isqrt_from k n)"

definition isqrt :: "nat \<Rightarrow> nat" where
  "isqrt n = isqrt_from n n"

record UserProfile =
  user_id :: int
  xp :: int
  coins :: int
  level :: int
  badges :: "string list"

definition get_user_profile :: "redis_store \<Rightarrow> int \<Rightarrow> UserProfile" where
  "get_user_profile r uid =
     (let xp_total = get_xp r uid;
          coins_total = get_coins r uid;
          badge_list = get_badges r uid;
          lvl = int (isqrt (nat (max xp_total 0) div 100)) + 1
      in \<lparr>user_id = uid, xp = xp_total, coins = coins_total, level = lvl,
           badges = badge_list\<rparr>)"

subsection \<open>The gamification rules (\<^verbatim>\<open>gamification_logic.py\<close>)\<close>

definition XP_PER_VALID_REPORT :: int where
  "XP_PER_VALID_REPORT = 10"

definition COINS_PER_VALID_REPORT :: int where
  "COINS_PER_VALID_REPORT = 5"

text \<open>
  The badge names are the bytes of the source's texts; the accented letters of
  the second and third name are written by their UTF-8 codes.
\<close>

definition BADGE_THRESHOLDS :: "(int \<times> string) list" where
  "BADGE_THRESHOLDS =
     [(100, ''Explorador Urbano''),
      (250, ''Guardi'' @ [CHR 0xC3, CHR 0xA1] @ ''n de la Ciudad''),
      (500, ''H'' @ [CHR 0xC3, CHR 0xA9] @ ''roe del Tr'' @ [CHR 0xC3, CHR 0xA1] @ ''fico''),
      (1000, ''Leyenda Urbana'')]"

text \<open>
  The loop of \<^verbatim>\<open>_check_and_assign_badges\<close> over the thresholds. \<open>existing\<close> is the set read
  once before the loop; the store and the list \<^verbatim>\<open>new_badges\<close> are threaded through.
\<close>

fun assign_badges_loop ::
  "string set \<Rightarrow> int \<Rightarrow> int \<Rightarrow> (int \<times> string) list \<Rightarrow> redis_store \<Rightarrow> string list \<Rightarrow>
   redis_store \<times> string list" where
  "assign_badges_loop existing uid total_xp [] r new_badges = (r, new_badges)"
| "assign_badges_loop existing uid total_xp ((threshold, badge_name) # rest) r new_badges =
     (if total_xp \<ge> threshold \<and> badge_name \<notin> existing
      then assign_badges_loop existing uid total_xp rest (add_badge r uid badge_name)
             (new_badges @ [badge_name])
      else assign_badges_loop existing uid total_xp rest r new_badges)"

definition check_and_assign_badges :: "redis_store \<Rightarrow> int \<Rightarrow> int \<Rightarrow> redis_store \<times> string list" where
  "check_and_assign_badges r uid total_xp =
     assign_badges_loop (set (get_badges r uid)) uid total_xp BADGE_THRESHOLDS r []"

text \<open>
  The keys of the store are built from the text of the user id, \<^verbatim>\<open>f"user:{user_id}:xp"\<close>
  and \<^verbatim>\<open>str(user_id)\<close>, whatever the id is. An id read from a payload addresses the keys
  of the integer \<open>n\<close> when its text is the text of \<open>n\<close>: when it is the number \<open>n\<close>, or
  the string that \<^verbatim>\<open>str(n)\<close> gives. \<open>int_of_text\<close> reads a decimal text; the comparison
  with \<open>str_int\<close> keeps only the text \<^verbatim>\<open>str\<close> would produce (no leading zeros, no
  \<^verbatim>\<open>-0\<close>).
\<close>

fun digits_value :: "nat \<Rightarrow> string \<Rightarrow> nat option" where
  "digits_value acc [] = Some acc"
| "digits_value acc (c # cs) =
     (if c \<in> set ''0123456789'' then digits_value (10 * acc + (of_char c - 48)) cs
      else None)"

definition int_of_text :: "string \<Rightarrow> int option" where
  "int_of_text t =
     (case t of
        [] \<Rightarrow> None
      | c # cs \<Rightarrow>
          if c = CHR ''-''
          then (case cs of [] \<Rightarrow> None | d # ds \<Rightarrow> map_option (\<lambda>n. - int n) (digits_value 0 cs))
          else map_option int (digits_value 0 t))"

definition integer_id :: "json \<Rightarrow> int option" where
  "integer_id v =
     (case v of
        JNum n \<Rightarrow> Some n
      | JStr t \<Rightarrow>
          (case int_of_text t of
             None \<Rightarrow> None
           | Some n \<Rightarrow> if str_int n = t then Some n else None)
      | _ \<Rightarrow> None)"

text \<open>
  What the two handlers return: the dictionary with \<^verbatim>\<open>"error": "usuario_id faltante"\<close>,
  the record of a registered creation, or the record of a reward, which echoes the
  user id as it was read. A reward for an id whose text is not the text of an integer
  goes to the keys and the sorted-set member of that text, which no integer id
  addresses; the store of this theory holds the keys and members of integer ids only,
  so such a reward leaves it as it is and is returned as \<open>RecompensaOtraClave\<close> with
  the id.
\<close>

record reward =
  user_id :: json
  total_xp :: int
  total_coins :: int
  xp_awarded :: int
  coins_awarded :: int
  new_badges :: "string list"
  all_badges :: "string list"

datatype handler_result =
    UsuarioIdFaltante
  | ReporteRegistrado json
  | Recompensa reward
  | RecompensaOtraClave json

text \<open>
  What a handler can raise: \<^verbatim>\<open>event.get("data") or {}\<close> followed by \<^verbatim>\<open>.get\<close> raises
  \<^verbatim>\<open>AttributeError\<close> when the value under \<^verbatim>\<open>"data"\<close> is true and not a dictionary. The
  handlers make no check on the type of the user id; the handler of a creation only
  echoes the id it finds.
\<close>

datatype handler_error = AttributeError

definition event_data :: "(string \<times> json) list \<Rightarrow> handler_error + (string \<times> json) list" where
  "event_data event =
     (let d = dict_get event ''data''
      in if \<not> truthy d then Inr []
         else (case d of JObj kvs \<Rightarrow> Inr kvs | _ \<Rightarrow> Inl AttributeError))"

definition process_created_report ::
  "redis_store \<Rightarrow> (string \<times> json) list \<Rightarrow> (handler_error + handler_result) \<times> redis_store" where
  "process_created_report r event =
     (case event_data event of
        Inl e \<Rightarrow> (Inl e, r)
      | Inr data \<Rightarrow>
          (case dict_get data ''usuario_id'' of
             JNull \<Rightarrow> (Inr UsuarioIdFaltante, r)
           | uid \<Rightarrow> (Inr (ReporteRegistrado uid), r)))"

definition process_validated_report ::
  "redis_store \<Rightarrow> (string \<times> json) list \<Rightarrow> (handler_error + handler_result) \<times> redis_store" where
  "process_validated_report r event =
     (case event_data event of
        Inl e \<Rightarrow> (Inl e, r)
      | Inr data \<Rightarrow>
          (case dict_get data ''usuario_id'' of
             JNull \<Rightarrow> (Inr UsuarioIdFaltante, r)
           | v \<Rightarrow>
               (case integer_id v of
                  None \<Rightarrow> (Inr (RecompensaOtraClave v), r)
                | Some uid \<Rightarrow>
                    (case add_xp r uid XP_PER_VALID_REPORT of
                       (txp, r1) \<Rightarrow>
                         (case add_coins r1 uid COINS_PER_VALID_REPORT of
                            (tcoins, r2) \<Rightarrow>
                              (case check_and_assign_badges r2 uid txp of
                                 (r3, nb) \<Rightarrow>
                                   (Inr (Recompensa
                                      \<lparr>user_id = v, total_xp = txp, total_coins = tcoins,
                                       xp_awarded = XP_PER_VALID_REPORT,
                                       coins_awarded = COINS_PER_VALID_REPORT,
                                       new_badges = nb, all_badges = get_badges r3 uid\<rparr>),
                                    r3)))))))"

subsection \<open>The event consumer (\<^verbatim>\<open>rabbitmq_consumer.py\<close>)\<close>

definition RabbitMQGamificationConsumer_EXCHANGE_NAME :: string where
  "RabbitMQGamificationConsumer_EXCHANGE_NAME = ''traffic.events''"

definition QUEUE_NAME :: string where
  "QUEUE_NAME = ''gamification.reports''"

definition ROUTING_KEYS :: "string list" where
  "ROUTING_KEYS = [''reporte_creado'', ''reporte_validado'']"

text \<open>
  What \<^verbatim>\<open>_on_message\<close> does with one message: it ran one of the two handlers (with what
  the handler returned or raised), it ignored the event, or the body did not decode.
  Every exception is caught and logged inside \<^verbatim>\<open>_on_message\<close>.
\<close>

datatype dispatch =
    ProcesadoValidado "handler_error + handler_result"
  | ProcesadoCreado "handler_error + handler_result"
  | EventoIgnorado
  | ErrorDeDecodificacion
  | ErrorProcesando handler_error

definition on_message :: "redis_store \<Rightarrow> Message \<Rightarrow> dispatch \<times> redis_store" where
  "on_message r msg =
     (case json_loads (body msg) of
        None \<Rightarrow> (ErrorDeDecodificacion, r)
      | Some (JObj payload) \<Rightarrow>
          (let event_type = dict_get payload ''type''
           in if event_type = JStr ''reporte_validado''
              then (case process_validated_report r payload of
                      (res, r') \<Rightarrow> (ProcesadoValidado res, r'))
              else if event_type = JStr ''reporte_creado''
              then (case process_created_report r payload of
                      (res, r') \<Rightarrow> (ProcesadoCreado res, r'))
              else (EventoIgnorado, r))
      | Some _ \<Rightarrow> (ErrorProcesando AttributeError, r))"

subsection \<open>The broker between the two services\<close>

text \<open>
  A topic exchange hands a message to a queue when the queue is bound to that exchange
  with a binding key that matches the routing key: both are split into words at the
  dots, \<^verbatim>\<open>*\<close> in the binding key stands for one word and \<^verbatim>\<open>#\<close> for any number of words.
\<close>

fun split_words :: "string \<Rightarrow> string \<Rightarrow> string list" where
  "split_words w [] = [w]"
| "split_words w (c # cs) =
     (if c = CHR ''.'' then w # split_words [] cs else split_words (w @ [c]) cs)"

fun words_match :: "string list \<Rightarrow> string list \<Rightarrow> bool" where
  "words_match [] [] = True"
| "words_match [] (w # ws) = False"
| "words_match (p # ps) [] = (p = ''#'' \<and> words_match ps [])"
| "words_match (p # ps) (w # ws) =
     (if p = ''#'' then words_match ps (w # ws) \<or> words_match (p # ps) ws
      else (p = ''*'' \<or> p = w) \<and> words_match ps ws)"

definition topic_match :: "string \<Rightarrow> string \<Rightarrow> bool" where
  "topic_match binding_key rk = words_match (split_words [] binding_key) (split_words [] rk)"

text \<open>
  The queue the consumer declares in \<^verbatim>\<open>_connect\<close> is bound to the consumer's exchange once
  per routing key of \<^verbatim>\<open>ROUTING_KEYS\<close>.
\<close>

definition queue_receives :: "publication \<Rightarrow> bool" where
  "queue_receives pub \<longleftrightarrow>
     exchange pub = RabbitMQGamificationConsumer_EXCHANGE_NAME \<and>
     list_ex (\<lambda>k. topic_match k (routing_key pub)) ROUTING_KEYS"

text \<open>The way of one published message to the counter store.\<close>

definition deliver :: "redis_store \<Rightarrow> publication \<Rightarrow> redis_store" where
  "deliver r pub = (if queue_receives pub then snd (on_message r (message pub)) else r)"

subsection \<open>Histories of the traffic service\<close>

text \<open>
  The states the service reaches from empty tables by calls of its two writing
  endpoints, under any behaviour of the outside world. The second argument records the
  pairs (incident, user) of the validation calls that returned a response. The third
  records the pairs of the validation calls that returned a response or that were
  answered with an error after their write was committed.
\<close>

inductive lifecycle :: "app \<Rightarrow> (int \<times> int) set \<Rightarrow> (int \<times> int) set \<Rightarrow> bool" where
  start: "incidentes (db s) = Map.empty \<Longrightarrow> validaciones (db s) = [] \<Longrightarrow> lifecycle s {} {}"
| report: "lifecycle s H C \<Longrightarrow> reportar_incidente env incidente s = (res, s', pubs) \<Longrightarrow>
     lifecycle s' H C"
| validate_ok: "lifecycle s H C \<Longrightarrow> validar_reporte env rid v s = (Inr resp, s', pubs) \<Longrightarrow>
     lifecycle s' (insert (rid, ValidacionRequest.usuario_id v) H)
       (insert (rid, ValidacionRequest.usuario_id v) C)"
| validate_error: "lifecycle s H C \<Longrightarrow> validar_reporte env rid v s = (Inl e, s', pubs) \<Longrightarrow>
     lifecycle s' H
       (if db s' = db s then C else insert (rid, ValidacionRequest.usuario_id v) C)"

text \<open>The users with a validation row for an incident.\<close>

definition validadores :: "database \<Rightarrow> int \<Rightarrow> int set" where
  "validadores d i =
     ValidacionIncidente.usuario_id ` {v \<in> set (validaciones d). incidente_id v = i}"

text \<open>The invariant of the tables along a history.\<close>

definition consistent :: "database \<Rightarrow> (int \<times> int) set \<Rightarrow> bool" where
  "consistent d H \<longleftrightarrow>
     finite H \<and>
     distinct (validaciones d) \<and>
     (\<forall>v \<in> set (validaciones d).
        (incidente_id v, ValidacionIncidente.usuario_id v) \<in> H \<and>
        incidentes d (incidente_id v) \<noteq> None) \<and>
     (\<forall>i inc. incidentes d i = Some inc \<longrightarrow>
        i < next_id d \<and>
        validaciones_count inc = int (card (validadores d i)) \<and>
        validaciones_count inc \<le> 3 \<and>
        (estado inc = VERIFICADO \<longleftrightarrow> validaciones_count inc = 3))"

text \<open>The row of an incident after one more validation, as \<^verbatim>\<open>validar_reporte\<close> writes it.\<close>

definition sumar_validacion :: "Incidente \<Rightarrow> Incidente" where
  "sumar_validacion inc =
     (if validaciones_count inc + 1 \<ge> 3
      then inc\<lparr>validaciones_count := validaciones_count inc + 1, estado := VERIFICADO\<rparr>
      else inc\<lparr>validaciones_count := validaciones_count inc + 1\<rparr>)"

subsection \<open>The badge rule in the words of the specification\<close>


subsection \<open>A scenario\<close>

text \<open>
  User 1 reports a collision; users 2, 3 and 4 validate it. \<open>app_con n e us\<close> is the
  service with that one incident, holding \<open>n\<close> validations in state \<open>e\<close>, validated by
  the users \<open>us\<close>. \<open>redis_con\<close> is a counter store in which user 7 has 95 XP.
\<close>

definition broker_up :: broker_env where
  "broker_up = \<lparr>connection_is_closed = False, connect_ok = True, publish_ok = True\<rparr>"

definition broker_down :: broker_env where
  "broker_down = \<lparr>connection_is_closed = True, connect_ok = False, publish_ok = False\<rparr>"

definition env_ok :: request_env where
  "env_ok = \<lparr>severity_answer = Classified ALTA, broker = broker_up, commit_ok = True,
              refresh_ok = True\<rparr>"

definition choque :: IncidenteCreate where
  "choque = \<lparr>IncidenteCreate.tipo = ''choque'',
              IncidenteCreate.descripcion = ''Choque frontal'',
              IncidenteCreate.latitud = 0, IncidenteCreate.longitud = 0,
              IncidenteCreate.usuario_id = 1\<rparr>"

definition validacion_de :: "int \<Rightarrow> ValidacionRequest" where
  "validacion_de u = \<lparr>ValidacionRequest.usuario_id = u\<rparr>"

definition fila :: "int \<Rightarrow> int \<Rightarrow> ValidacionIncidente" where
  "fila i u = \<lparr>incidente_id = i, ValidacionIncidente.usuario_id = u\<rparr>"

definition choque_con :: "int \<Rightarrow> EstadoIncidenteEnum \<Rightarrow> Incidente" where
  "choque_con n e = (nuevo_incidente choque ALTA)\<lparr>validaciones_count := n, estado := e\<rparr>"

definition app_con :: "int \<Rightarrow> EstadoIncidenteEnum \<Rightarrow> int list \<Rightarrow> app" where
  "app_con n e us =
     \<lparr>db = \<lparr>incidentes = [1 \<mapsto> choque_con n e], validaciones = map (fila 1) us,
            next_id = 2\<rparr>,
      producer_instance = Some \<lparr>is_connected = True\<rparr>\<rparr>"

definition app_inicial :: app where
  "app_inicial = \<lparr>db = \<lparr>incidentes = Map.empty, validaciones = [], next_id = 1\<rparr>,
                   producer_instance = None\<rparr>"

definition redis_con :: redis_store where
  "redis_con = \<lparr>xp_keys = [7 \<mapsto> 95], coins_keys = [7 \<mapsto> 40], badges_keys = (\<lambda>u. []),
               leaderboard_xp = [(7, 95), (3, 120), (12, 95)]\<rparr>"

definition evento_validado :: "int \<Rightarrow> (string \<times> json) list" where
  "evento_validado u =
     [(''type'', JStr ''reporte_validado''), (''data'', JObj [(''usuario_id'', JNum u)])]"

lemmas escenario_defs = broker_up_def broker_down_def env_ok_def choque_def validacion_de_def
  fila_def choque_con_def app_con_def app_inicial_def nuevo_incidente_def redis_con_def
  evento_validado_def

subsection \<open>The published event in the words of the specification\<close>

text \<open>
  An event is published to the exchange of lifecycle events as a flat key-value
  payload (the event type, the recipient, the base points, then the extra fields),
  marked persistent, with the event type as routing key.
\<close>

definition spec_event_message ::
  "string \<Rightarrow> int \<Rightarrow> int \<Rightarrow> (string \<times> json) list \<Rightarrow> publication" where
  "spec_event_message event_type recipient points extra =
     \<lparr>exchange = ''urban_drive_events'',
      routing_key = event_type,
      message =
        \<lparr>body = Encoded (JObj ([(''event_type'', JStr event_type),
                                 (''user_id'', JNum recipient),
                                 (''puntos_base'', JNum points)] @ extra)),
         delivery_mode = PERSISTENT,
         content_type = ''application/json''\<rparr>\<rparr>"

text \<open>A payload is flat when none of its values is a list or a dictionary.\<close>

fun scalar :: "json \<Rightarrow> bool" where
  "scalar (JArr xs) = False"
| "scalar (JObj kvs) = False"
| "scalar v = True"

section \<open>Properties\<close>

subsection \<open>The order of the checks of a validation\<close>

text \<open>
  C3. \<^verbatim>\<open>validar_reporte\<close> checks in a fixed order. An incident that does not exist gives
  404. An incident that exists and belongs to the caller gives 400 with the
  self-validation detail, whatever else holds. An incident of another user that the
  caller has already validated gives 400 with the duplicate detail, whatever the state
  of the incident. The three errors differ, change nothing and publish nothing. Only
  when none applies does the call reach the short circuit or the mutation: it then
  returns a response, or the mutation's commit or the refresh after it raises and the
  answer is 500.
\<close>

theorem validar_reporte_check_order:
  "(incidentes (db s) rid = None \<longrightarrow>
      validar_reporte env rid v s =
        (Inl (HTTPException 404 (ReporteNoEncontrado rid)), s, []))
   \<and> (\<forall>inc. incidentes (db s) rid = Some inc \<and>
          Incidente.usuario_id inc = ValidacionRequest.usuario_id v \<longrightarrow>
      validar_reporte env rid v s =
        (Inl (HTTPException 400 NoPuedesValidarTuPropioReporte), s, []))
   \<and> (\<forall>inc. incidentes (db s) rid = Some inc \<and>
          Incidente.usuario_id inc \<noteq> ValidacionRequest.usuario_id v \<and>
          validacion_existente (db s) rid (ValidacionRequest.usuario_id v) \<noteq> None \<longrightarrow>
      validar_reporte env rid v s =
        (Inl (HTTPException 400 YaHasValidadoEsteReporte), s, []))
   \<and> (\<forall>inc. incidentes (db s) rid = Some inc \<and>
          Incidente.usuario_id inc \<noteq> ValidacionRequest.usuario_id v \<and>
          validacion_existente (db s) rid (ValidacionRequest.usuario_id v) = None \<longrightarrow>
      (\<exists>resp. fst (validar_reporte env rid v s) = Inr resp) \<or>
      ((\<not> commit_ok env \<or> \<not> refresh_ok env) \<and> Incidente.estado inc \<noteq> VERIFICADO \<and>
       fst (validar_reporte env rid v s) = Inl (HTTPException 500 ErrorAlValidarElReporte)))
   \<and> HTTPException 404 (ReporteNoEncontrado rid)
         \<noteq> HTTPException 400 NoPuedesValidarTuPropioReporte
   \<and> HTTPException 404 (ReporteNoEncontrado rid) \<noteq> HTTPException 400 YaHasValidadoEsteReporte
   \<and> HTTPException 400 NoPuedesValidarTuPropioReporte
         \<noteq> HTTPException 400 YaHasValidadoEsteReporte"
  by (auto simp: validar_reporte_def Let_def split: prod.splits)

text \<open>
  In the scenario, on the verified incident: an unknown id gives 404, the owner gets
  the self-validation error, user 2 the duplicate error, and user 5 a response.
\<close>

theorem validar_reporte_check_order_witness:
  "validar_reporte env_ok 99 (validacion_de 5) (app_con 3 VERIFICADO [2, 3, 4]) =
     (Inl (HTTPException 404 (ReporteNoEncontrado 99)), app_con 3 VERIFICADO [2, 3, 4], [])
   \<and> validar_reporte env_ok 1 (validacion_de 1) (app_con 3 VERIFICADO [2, 3, 4]) =
     (Inl (HTTPException 400 NoPuedesValidarTuPropioReporte), app_con 3 VERIFICADO [2, 3, 4], [])
   \<and> validar_reporte env_ok 1 (validacion_de 2) (app_con 3 VERIFICADO [2, 3, 4]) =
     (Inl (HTTPException 400 YaHasValidadoEsteReporte), app_con 3 VERIFICADO [2, 3, 4], [])
   \<and> (\<exists>resp. fst (validar_reporte env_ok 1 (validacion_de 5) (app_con 3 VERIFICADO [2, 3, 4]))
         = Inr resp)"
proof -
  let ?s = "app_con 3 VERIFICADO [2, 3, 4]"
  have i99: "incidentes (db ?s) 99 = None"
    and i1: "incidentes (db ?s) 1 = Some (choque_con 3 VERIFICADO)"
    by (simp_all add: app_con_def)
  have own: "Incidente.usuario_id (choque_con 3 VERIFICADO) = ValidacionRequest.usuario_id (validacion_de 1)"
    and o2: "Incidente.usuario_id (choque_con 3 VERIFICADO) \<noteq> ValidacionRequest.usuario_id (validacion_de 2)"
    and o5: "Incidente.usuario_id (choque_con 3 VERIFICADO) \<noteq> ValidacionRequest.usuario_id (validacion_de 5)"
    by (simp_all add: escenario_defs)
  have d2: "validacion_existente (db ?s) 1 (ValidacionRequest.usuario_id (validacion_de 2)) \<noteq> None"
    and d5: "validacion_existente (db ?s) 1 (ValidacionRequest.usuario_id (validacion_de 5)) = None"
    by (simp_all add: escenario_defs validacion_existente_def)
  have c: "commit_ok env_ok" "refresh_ok env_ok" by (simp_all add: env_ok_def)
  show ?thesis
    using validar_reporte_check_order [of ?s 99 env_ok "validacion_de 5"]
      validar_reporte_check_order [of ?s 1 env_ok "validacion_de 1"]
      validar_reporte_check_order [of ?s 1 env_ok "validacion_de 2"]
      validar_reporte_check_order [of ?s 1 env_ok "validacion_de 5"]
      i99 i1 own o2 o5 d2 d5 c
    by auto
qed

subsection \<open>A validation of a verified incident\<close>

text \<open>
  C4. When the incident is already \<^verbatim>\<open>verificado\<close> and the caller is neither its owner nor
  one of its earlier validators, \<^verbatim>\<open>validar_reporte\<close> returns a response with
  \<^verbatim>\<open>verificado = True\<close> and the stored count, the whole state is the one before the call
  (no row is added, counter and state of the incident are unchanged), and nothing is
  published.
\<close>

theorem validar_reporte_verified_noop:
  assumes "incidentes (db s) rid = Some inc"
    and "Incidente.estado inc = VERIFICADO"
    and "Incidente.usuario_id inc \<noteq> ValidacionRequest.usuario_id v"
    and "validacion_existente (db s) rid (ValidacionRequest.usuario_id v) = None"
  shows "validar_reporte env rid v s =
     (Inr \<lparr>ValidacionResponse.incidente_id = rid,
           ValidacionResponse.usuario_id = ValidacionRequest.usuario_id v,
           ValidacionResponse.validaciones_count = Incidente.validaciones_count inc,
           ValidacionResponse.estado = VERIFICADO,
           verificado = True,
           mensaje = YaVerificado (Incidente.validaciones_count inc)\<rparr>, s, [])"
  using assms by (simp add: validar_reporte_def)

text \<open>In the scenario, user 5 validates the verified incident: success, count still 3.\<close>

theorem validar_reporte_verified_noop_witness:
  "validar_reporte env_ok 1 (validacion_de 5) (app_con 3 VERIFICADO [2, 3, 4]) =
     (Inr \<lparr>ValidacionResponse.incidente_id = 1,
           ValidacionResponse.usuario_id = 5,
           ValidacionResponse.validaciones_count = 3,
           ValidacionResponse.estado = VERIFICADO,
           verificado = True,
           mensaje = YaVerificado 3\<rparr>, app_con 3 VERIFICADO [2, 3, 4], [])"
proof -
  let ?s = "app_con 3 VERIFICADO [2, 3, 4]"
  have 1: "incidentes (db ?s) 1 = Some (choque_con 3 VERIFICADO)"
    by (simp add: app_con_def)
  have 2: "Incidente.estado (choque_con 3 VERIFICADO) = VERIFICADO"
    by (simp add: choque_con_def)
  have 3: "Incidente.usuario_id (choque_con 3 VERIFICADO)
      \<noteq> ValidacionRequest.usuario_id (validacion_de 5)"
    by (simp add: escenario_defs)
  have 4: "validacion_existente (db ?s) 1 (ValidacionRequest.usuario_id (validacion_de 5)) = None"
    by (simp add: escenario_defs validacion_existente_def)
  show ?thesis
    using validar_reporte_verified_noop [OF 1 2 3 4, of env_ok]
    by (simp add: escenario_defs)
qed

subsection \<open>The badge rule\<close>

lemma add_badge_fields [simp]:
  "xp_keys (add_badge r u b) = xp_keys r"
  "coins_keys (add_badge r u b) = coins_keys r"
  "leaderboard_xp (add_badge r u b) = leaderboard_xp r"
  "badges_keys (add_badge r u b) = (badges_keys r)(u := sadd (badges_keys r u) b)"
  by (simp_all add: add_badge_def)

lemma set_sadd [simp]: "set (sadd members b) = insert b (set members)"
  by (auto simp: sadd_def)


lemma assign_badges_loop_others:
  "xp_keys (fst (assign_badges_loop ex uid t ths r nb)) = xp_keys r \<and>
   coins_keys (fst (assign_badges_loop ex uid t ths r nb)) = coins_keys r \<and>
   leaderboard_xp (fst (assign_badges_loop ex uid t ths r nb)) = leaderboard_xp r \<and>
   (\<forall>u. u \<noteq> uid \<longrightarrow>
      badges_keys (fst (assign_badges_loop ex uid t ths r nb)) u = badges_keys r u)"
  by (induction ex uid t ths r nb rule: assign_badges_loop.induct) simp_all









lemma fst_add_coins: "fst (add_coins r u n) = get_coins r u + n"
  by (simp add: add_coins_def get_coins_def incrby_def Let_def)




subsection \<open>Reading the counters of a user without state\<close>

text \<open>
  C10. For a user with no XP key, no coins key and no badge set, \<^verbatim>\<open>get_xp\<close> and
  \<^verbatim>\<open>get_coins\<close> return 0, \<^verbatim>\<open>get_badges\<close> returns the empty list, and the profile has
  0 XP, 0 coins, level 1 and no badges.
\<close>

theorem absent_user_defaults:
  "xp_keys r uid = None \<and> coins_keys r uid = None \<and> badges_keys r uid = [] \<longrightarrow>
     get_xp r uid = 0 \<and> get_coins r uid = 0 \<and> get_badges r uid = [] \<and>
     get_user_profile r uid =
       \<lparr>UserProfile.user_id = uid, xp = 0, coins = 0, level = 1, badges = []\<rparr>"
  by (simp add: get_xp_def get_coins_def get_badges_def get_user_profile_def isqrt_def)

text \<open>In the scenario user 8 has no state.\<close>

theorem absent_user_defaults_witness:
  "xp_keys redis_con 8 = None \<and> coins_keys redis_con 8 = None \<and> badges_keys redis_con 8 = []
   \<and> get_xp redis_con 8 = 0 \<and> get_coins redis_con 8 = 0 \<and> get_badges redis_con 8 = []
   \<and> get_user_profile redis_con 8 =
       \<lparr>UserProfile.user_id = 8, xp = 0, coins = 0, level = 1, badges = []\<rparr>"
proof -
  have h: "xp_keys redis_con 8 = None \<and> coins_keys redis_con 8 = None \<and> badges_keys redis_con 8 = []"
    by (simp add: redis_con_def)
  with absent_user_defaults [of redis_con 8] show ?thesis by blast
qed

subsection \<open>The leaderboard\<close>

lemma leaderboard_rows_length [simp]: "length (leaderboard_rows idx results) = length results"
  by (induction idx results rule: leaderboard_rows.induct) simp_all

lemma leaderboard_rows_xp:
  "map LeaderboardEntry.xp (leaderboard_rows idx results) = map snd results"
  by (induction idx results rule: leaderboard_rows.induct) simp_all

lemma leaderboard_rows_user_id:
  "map LeaderboardEntry.user_id (leaderboard_rows idx results) = map fst results"
  by (induction idx results rule: leaderboard_rows.induct) simp_all

lemma leaderboard_rows_rank:
  "map rank (leaderboard_rows idx results) = map (\<lambda>k. idx + int k) [0..<length results]"
proof (induction idx results rule: leaderboard_rows.induct)
  case (1 idx)
  then show ?case by simp
next
  case (2 idx m sc results)
  have "map (\<lambda>k. idx + int k) [0..<Suc (length results)] =
        idx # map (\<lambda>k. idx + 1 + int k) [0..<length results]"
    by (simp add: upt_conv_Cons map_Suc_upt [symmetric] del: upt_Suc)
  with 2 show ?case by simp
qed

lemma ranks_from_one: "map (\<lambda>k. 1 + int k) [0..<n] = map int [1..<Suc n]"
  by (induction n) simp_all

lemma zrevrange_top:
  assumes "1 \<le> N"
  shows "zrevrange z 0 (N - 1) = take (nat N) (rev (sort_key (\<lambda>(m, sc). (sc, str_int m)) z))"
proof -
  let ?o = "rev (sort_key (\<lambda>(m, sc). (sc, str_int m)) z)"
  show ?thesis
  proof (cases "N - 1 \<ge> int (length ?o)")
    case True
    then show ?thesis using assms by (auto simp: zrevrange_def Let_def)
  next
    case False
    then have "nat (N - 1 - 0 + 1) = nat N" by simp
    with False show ?thesis using assms by (auto simp: zrevrange_def Let_def)
  qed
qed

lemma zrevrange_order:
  "sorted_wrt (\<lambda>a b. snd a \<ge> snd b)
     (rev (sort_key (\<lambda>(m, sc). (sc, str_int m)) (z :: (int \<times> int) list)))"
proof -
  let ?key = "\<lambda>(m :: int, sc :: int). (sc, str_int m)"
  have "sorted (map ?key (sort_key ?key z))" by (rule sorted_sort_key)
  then have "sorted_wrt (\<lambda>a b. ?key a \<le> ?key b) (sort_key ?key z)"
    by (simp add: sorted_map)
  then have "sorted_wrt (\<lambda>a b. snd a \<le> snd b) (sort_key ?key z)"
    by (rule sorted_wrt_mono_rel [rotated]) (auto simp: less_eq_prod_def)
  then show ?thesis by (simp add: sorted_wrt_rev)
qed

text \<open>
  C9. For every content of the sorted set and every limit of at least 1,
  \<^verbatim>\<open>get_leaderboard\<close> returns at most that many entries (all members when there are
  fewer), with XP from the highest to the lowest, taken from the sorted set, and with
  the ranks 1, 2, ... in the order of the output.
\<close>

theorem leaderboard_sorted_ranked:
  assumes "1 \<le> N"
  shows "length (get_leaderboard r N) = min (nat N) (length (leaderboard_xp r))
    \<and> length (get_leaderboard r N) \<le> nat N
    \<and> sorted_wrt (\<ge>) (map LeaderboardEntry.xp (get_leaderboard r N))
    \<and> map rank (get_leaderboard r N) = map int [1..<Suc (length (get_leaderboard r N))]
    \<and> set (map (\<lambda>e. (LeaderboardEntry.user_id e, LeaderboardEntry.xp e)) (get_leaderboard r N))
        \<subseteq> set (leaderboard_xp r)"
proof -
  let ?o = "rev (sort_key (\<lambda>(m, sc). (sc, str_int m)) (leaderboard_xp r))"
  let ?res = "take (nat N) ?o"
  have g: "get_leaderboard r N = leaderboard_rows 1 ?res"
    by (simp add: get_leaderboard_def zrevrange_top [OF assms])
  have len: "length (get_leaderboard r N) = min (nat N) (length (leaderboard_xp r))"
    unfolding g by (simp add: min.commute)
  have "sorted_wrt (\<lambda>a b. snd a \<ge> snd b) ?res"
    using zrevrange_order [of "leaderboard_xp r"] by (rule sorted_wrt_take)
  then have srt: "sorted_wrt (\<ge>) (map LeaderboardEntry.xp (get_leaderboard r N))"
    unfolding g leaderboard_rows_xp by (simp add: sorted_wrt_map)
  have rk: "map rank (get_leaderboard r N) = map int [1..<Suc (length (get_leaderboard r N))]"
    unfolding g leaderboard_rows_rank by (simp add: ranks_from_one)
  have "map (\<lambda>e. (LeaderboardEntry.user_id e, LeaderboardEntry.xp e)) (leaderboard_rows idx xs) = xs"
    for idx xs
    by (induction idx xs rule: leaderboard_rows.induct) simp_all
  then have "set (map (\<lambda>e. (LeaderboardEntry.user_id e, LeaderboardEntry.xp e)) (get_leaderboard r N))
      = set ?res"
    unfolding g by simp
  also have "\<dots> \<subseteq> set ?o" by (rule set_take_subset)
  also have "set ?o = set (leaderboard_xp r)" by simp
  finally have sub: "set (map (\<lambda>e. (LeaderboardEntry.user_id e, LeaderboardEntry.xp e))
      (get_leaderboard r N)) \<subseteq> set (leaderboard_xp r)" .
  from len srt rk sub show ?thesis by simp
qed

text \<open>
  In the scenario the sorted set holds user 7 with 95, user 3 with 120 and user 12
  with 95; the two best are user 3 and, of the two with 95, user 7, whose member text
  is the greater.
\<close>

theorem leaderboard_sorted_ranked_witness:
  "(1::int) \<le> 2
   \<and> get_leaderboard redis_con 2 =
       [\<lparr>rank = 1, LeaderboardEntry.user_id = 3, LeaderboardEntry.xp = 120\<rparr>,
        \<lparr>rank = 2, LeaderboardEntry.user_id = 7, LeaderboardEntry.xp = 95\<rparr>]
   \<and> length (get_leaderboard redis_con 2) \<le> nat 2
   \<and> sorted_wrt (\<ge>) (map LeaderboardEntry.xp (get_leaderboard redis_con 2))
   \<and> map rank (get_leaderboard redis_con 2) = map int [1..<Suc (length (get_leaderboard redis_con 2))]"
proof -
  have h: "(1::int) \<le> 2" by simp
  have s3: "str_int 3 = ''3''" and s7: "str_int 7 = ''7''" and s12: "str_int 12 = ''12''"
    by (simp_all add: str_int_def)
  have e: "get_leaderboard redis_con 2 =
       [\<lparr>rank = 1, LeaderboardEntry.user_id = 3, LeaderboardEntry.xp = 120\<rparr>,
        \<lparr>rank = 2, LeaderboardEntry.user_id = 7, LeaderboardEntry.xp = 95\<rparr>]"
    by (simp add: get_leaderboard_def zrevrange_def redis_con_def s3 s7 s12 less_eq_prod_def
        less_prod_def Let_def)
  from leaderboard_sorted_ranked [OF h, of redis_con] e h show ?thesis by blast
qed

subsection \<open>What a validation publishes\<close>

lemma publish_event_cases:
  assumes "publish_event env p event_type uid points None extra = (ok, p', pubs)"
  shows "if (is_connected p \<and> \<not> connection_is_closed env \<or> connect_ok env) \<and> publish_ok env
         then ok \<and> pubs = [spec_event_message event_type uid points extra]
         else \<not> ok \<and> pubs = []"
  using assms
  by (auto simp: publish_event_def ensure_connected_def connect_def Let_def json_dumps_def
      spec_event_message_def RabbitMQProducer_EXCHANGE_NAME_def split: if_splits)

lemma get_producer_instance: "snd (get_producer env inst) \<noteq> None"
  by (auto simp: get_producer_def split: option.splits prod.splits bool.splits)

lemma get_producer_started: "get_producer env (Some p) = (Some p, Some p)"
  by (simp add: get_producer_def)

lemma try_publish_started:
  "snd (try_publish env (Some p) event_type uid points extra) =
     snd (snd (publish_event env p event_type uid points None extra))"
  by (simp add: try_publish_def get_producer_started split: prod.splits)

lemma try_publish_instance: "fst (try_publish env inst event_type uid points extra) \<noteq> None"
proof (cases "get_producer env inst")
  case (Pair a b)
  with get_producer_instance [of env inst] have "b \<noteq> None" by simp
  with Pair show ?thesis
    by (cases a) (auto simp: try_publish_def split: prod.splits)
qed

lemma try_publish_pubs:
  assumes "try_publish env inst event_type uid points extra = (inst', pubs)"
  shows "pubs = [] \<or> pubs = [spec_event_message event_type uid points extra]"
proof (cases "get_producer env inst")
  case (Pair a b)
  show ?thesis
  proof (cases a)
    case None
    with Pair assms show ?thesis by (simp add: try_publish_def)
  next
    case (Some p)
    obtain ok p' ps where pe: "publish_event env p event_type uid points None extra = (ok, p', ps)"
      by (cases "publish_event env p event_type uid points None extra") auto
    with Pair Some assms have "pubs = ps" by (simp add: try_publish_def)
    with publish_event_cases [OF pe] show ?thesis by (auto split: if_splits)
  qed
qed

lemma validar_reporte_pubs:
  assumes "validar_reporte env rid v s = (res, s', pubs)"
  shows "pubs = [] \<or>
    (\<exists>inc. incidentes (db s) rid = Some inc \<and>
       pubs = [spec_event_message ''reporte_verificado'' (Incidente.usuario_id inc) 50
                 [(''incidente_id'', JNum rid),
                  (''validaciones_count'', JNum (Incidente.validaciones_count inc + 1)),
                  (''tipo_incidente'', JStr (Incidente.tipo inc)),
                  (''severidad'', JStr (severidad_value (Incidente.severidad inc)))]])"
proof (cases "incidentes (db s) rid")
  case None
  with assms show ?thesis by (simp add: validar_reporte_def)
next
  case (Some inc)
  let ?extra = "[(''incidente_id'', JNum rid),
                  (''validaciones_count'', JNum (Incidente.validaciones_count inc + 1)),
                  (''tipo_incidente'', JStr (Incidente.tipo inc)),
                  (''severidad'', JStr (severidad_value (Incidente.severidad inc)))]"
  obtain i' ps where tp:
    "try_publish (broker env) (producer_instance s) ''reporte_verificado''
       (Incidente.usuario_id inc) 50 ?extra = (i', ps)"
    by force
  have "pubs = [] \<or> pubs = ps"
    using assms Some tp
    by (auto simp: validar_reporte_def Let_def split: if_splits)
  with try_publish_pubs [OF tp] Some show ?thesis by auto
qed


lemma spec_event_message_lost:
  "\<not> queue_receives (spec_event_message ''reporte_verificado'' uid points
        [(''incidente_id'', a), (''validaciones_count'', b), (''tipo_incidente'', c),
         (''severidad'', d)])"
  "on_message r (message (spec_event_message ''reporte_verificado'' uid points
        [(''incidente_id'', a), (''validaciones_count'', b), (''tipo_incidente'', c),
         (''severidad'', d)])) = (EventoIgnorado, r)"
  "process_validated_report r
     ([(''event_type'', JStr ''reporte_verificado''), (''user_id'', JNum uid),
       (''puntos_base'', JNum points)] @
      [(''incidente_id'', a), (''validaciones_count'', b), (''tipo_incidente'', c),
       (''severidad'', d)]) = (Inr UsuarioIdFaltante, r)"
  by (simp_all add: queue_receives_def spec_event_message_def on_message_def dict_get_def
      RabbitMQGamificationConsumer_EXCHANGE_NAME_def process_validated_report_def
      event_data_def)

text \<open>
  C2. The claim is that every verification event the publisher sends reaches the
  consumer's queue, is recognised by the dispatcher from its type field and earns its
  recipient 10 XP and 5 coins. The code does otherwise at each of the three steps.
  Every message a validation publishes goes to the exchange \<^verbatim>\<open>urban_drive_events\<close> with
  the routing key \<^verbatim>\<open>reporte_verificado\<close>, while the consumer's queue is bound to the
  exchange \<^verbatim>\<open>traffic.events\<close> with the keys \<^verbatim>\<open>reporte_creado\<close> and \<^verbatim>\<open>reporte_validado\<close>: the
  queue does not receive it. Handed to \<^verbatim>\<open>_on_message\<close> all the same, the message is
  ignored, for it carries its type under \<^verbatim>\<open>event_type\<close> and the dispatcher reads \<^verbatim>\<open>type\<close>.
  Handed to the reward handler all the same, the payload has no \<^verbatim>\<open>data.usuario_id\<close>
  (the recipient is under \<^verbatim>\<open>user_id\<close>) and the handler answers that the user id is
  missing. In each case the counter store is unchanged.
\<close>

theorem verified_event_never_rewarded:
  assumes "validar_reporte env rid v s = (res, s', pubs)" and "pub \<in> set pubs"
  shows "exchange pub = ''urban_drive_events''
    \<and> routing_key pub = ''reporte_verificado''
    \<and> RabbitMQGamificationConsumer_EXCHANGE_NAME = ''traffic.events''
    \<and> ROUTING_KEYS = [''reporte_creado'', ''reporte_validado'']
    \<and> \<not> queue_receives pub
    \<and> deliver r pub = r
    \<and> on_message r (message pub) = (EventoIgnorado, r)
    \<and> (\<exists>payload. json_loads (body (message pub)) = Some (JObj payload) \<and>
          dict_get payload ''type'' = JNull \<and>
          process_validated_report r payload = (Inr UsuarioIdFaltante, r))"
proof -
  have "pubs \<noteq> []" using assms(2) by auto
  with validar_reporte_pubs [OF assms(1)]
  obtain inc :: Incidente where "pubs = [spec_event_message ''reporte_verificado'' (Incidente.usuario_id inc) 50
                 [(''incidente_id'', JNum rid),
                  (''validaciones_count'', JNum (Incidente.validaciones_count inc + 1)),
                  (''tipo_incidente'', JStr (Incidente.tipo inc)),
                  (''severidad'', JStr (severidad_value (Incidente.severidad inc)))]]"
    by blast
  with assms(2)
  have pub: "pub = spec_event_message ''reporte_verificado'' (Incidente.usuario_id inc) 50
                 [(''incidente_id'', JNum rid),
                  (''validaciones_count'', JNum (Incidente.validaciones_count inc + 1)),
                  (''tipo_incidente'', JStr (Incidente.tipo inc)),
                  (''severidad'', JStr (severidad_value (Incidente.severidad inc)))]"
    by simp
  have 1: "exchange pub = ''urban_drive_events''" "routing_key pub = ''reporte_verificado''"
    unfolding pub by (simp_all add: spec_event_message_def)
  have 2: "\<not> queue_receives pub" unfolding pub by (rule spec_event_message_lost)
  have 3: "on_message r (message pub) = (EventoIgnorado, r)"
    unfolding pub by (rule spec_event_message_lost)
  have 4: "deliver r pub = r" using 2 by (simp add: deliver_def)
  have 5: "\<exists>payload. json_loads (body (message pub)) = Some (JObj payload) \<and>
          dict_get payload ''type'' = JNull \<and>
          process_validated_report r payload = (Inr UsuarioIdFaltante, r)"
    unfolding pub
    by (simp add: spec_event_message_def spec_event_message_lost(3) [simplified]
        dict_get_def)
  from 1 2 3 4 5 show ?thesis
    by (simp add: RabbitMQGamificationConsumer_EXCHANGE_NAME_def ROUTING_KEYS_def)
qed

text \<open>
  In the scenario the validation of user 4 verifies the incident of user 1 and
  publishes the event; delivered to a counter store, it leaves user 1 without XP or
  coins.
\<close>

theorem verified_event_never_rewarded_witness:
  "validar_reporte env_ok 1 (validacion_de 4) (app_con 2 PENDIENTE [2, 3]) =
     (Inr \<lparr>ValidacionResponse.incidente_id = 1,
           ValidacionResponse.usuario_id = 4,
           ValidacionResponse.validaciones_count = 3,
           ValidacionResponse.estado = VERIFICADO,
           verificado = True,
           mensaje = ReporteVerificado 3\<rparr>,
      app_con 3 VERIFICADO [2, 3, 4],
      [spec_event_message ''reporte_verificado'' 1 50
         [(''incidente_id'', JNum 1), (''validaciones_count'', JNum 3),
          (''tipo_incidente'', JStr ''choque''), (''severidad'', JStr ''alta'')]])
   \<and> deliver redis_con (spec_event_message ''reporte_verificado'' 1 50
         [(''incidente_id'', JNum 1), (''validaciones_count'', JNum 3),
          (''tipo_incidente'', JStr ''choque''), (''severidad'', JStr ''alta'')]) = redis_con
   \<and> get_xp redis_con 1 = 0 \<and> get_coins redis_con 1 = 0"
proof -
  let ?pub = "spec_event_message ''reporte_verificado'' 1 50
         [(''incidente_id'', JNum 1), (''validaciones_count'', JNum 3),
          (''tipo_incidente'', JStr ''choque''), (''severidad'', JStr ''alta'')]"
  have run: "validar_reporte env_ok 1 (validacion_de 4) (app_con 2 PENDIENTE [2, 3]) =
     (Inr \<lparr>ValidacionResponse.incidente_id = 1,
           ValidacionResponse.usuario_id = 4,
           ValidacionResponse.validaciones_count = 3,
           ValidacionResponse.estado = VERIFICADO,
           verificado = True,
           mensaje = ReporteVerificado 3\<rparr>,
      app_con 3 VERIFICADO [2, 3, 4], [?pub])"
    by (simp add: validar_reporte_def escenario_defs validacion_existente_def Let_def
        try_publish_def get_producer_def ensure_connected_def connect_def publish_event_def
        RabbitMQProducer_EXCHANGE_NAME_def json_dumps_def spec_event_message_def)
  have mem: "?pub \<in> set [?pub]" by simp
  have z: "get_xp redis_con 1 = 0" "get_coins redis_con 1 = 0"
    by (simp_all add: get_xp_def get_coins_def redis_con_def)
  from verified_event_never_rewarded [OF run mem, of redis_con] run z show ?thesis by blast
qed


lemma startup_event_instance: "producer_instance (startup_event benv s0) \<noteq> None"
  by (simp add: startup_event_def get_producer_instance)

lemma validar_reporte_transition:
  assumes "incidentes (db s) rid = Some inc"
    and "validar_reporte env rid v s = (res, s', pubs)"
    and "incidentes (db s') rid = Some inc'"
    and "Incidente.estado inc \<noteq> VERIFICADO" and "Incidente.estado inc' = VERIFICADO"
  shows "Incidente.usuario_id inc \<noteq> ValidacionRequest.usuario_id v
    \<and> Incidente.validaciones_count inc + 1 \<ge> 3
    \<and> inc' = inc\<lparr>Incidente.validaciones_count := Incidente.validaciones_count inc + 1,
                 Incidente.estado := VERIFICADO\<rparr>
    \<and> (\<forall>resp. res = Inr resp \<longrightarrow>
          verificado resp \<and>
          ValidacionResponse.validaciones_count resp = Incidente.validaciones_count inc + 1)
    \<and> pubs = snd (try_publish (broker env) (producer_instance s) ''reporte_verificado''
         (Incidente.usuario_id inc) 50
         [(''incidente_id'', JNum rid),
          (''validaciones_count'', JNum (Incidente.validaciones_count inc + 1)),
          (''tipo_incidente'', JStr (Incidente.tipo inc)),
          (''severidad'', JStr (severidad_value (Incidente.severidad inc)))])"
  using assms
  by (auto simp: validar_reporte_def Let_def split: if_splits prod.splits)

text \<open>
  C5. Take a call of \<^verbatim>\<open>validar_reporte\<close> in a started service (the singleton producer
  exists, as \<^verbatim>\<open>startup_event\<close> leaves it under any behaviour of the broker) that moves
  the incident from a state other than \<^verbatim>\<open>verificado\<close> to \<^verbatim>\<open>verificado\<close>, whatever the
  call answers. Then what reaches the broker is what one call of \<^verbatim>\<open>publish_event\<close> sends
  for the event type \<^verbatim>\<open>reporte_verificado\<close>, with the owner of the incident as recipient
  (who is not the validator), 50 base points and the extra fields incident id, count
  after the increment, type and severity. When the broker accepts the connection and
  the message, that is exactly one message: the flat payload of the specification,
  marked persistent, under the routing key \<^verbatim>\<open>reporte_verificado\<close>; otherwise nothing is
  sent. A response of the call carries \<^verbatim>\<open>verificado = True\<close> and the same count.
\<close>

theorem verification_event_published:
  assumes "incidentes (db s) rid = Some inc"
    and "producer_instance s = Some p"
    and "validar_reporte env rid v s = (res, s', pubs)"
    and "incidentes (db s') rid = Some inc'"
    and "Incidente.estado inc \<noteq> VERIFICADO" and "Incidente.estado inc' = VERIFICADO"
  shows "producer_instance (startup_event benv s0) \<noteq> None
    \<and> pubs = snd (snd (publish_event (broker env) p ''reporte_verificado''
         (Incidente.usuario_id inc) 50 None
         [(''incidente_id'', JNum rid),
          (''validaciones_count'', JNum (Incidente.validaciones_count inc')),
          (''tipo_incidente'', JStr (Incidente.tipo inc)),
          (''severidad'', JStr (severidad_value (Incidente.severidad inc)))]))
    \<and> (if (is_connected p \<and> \<not> connection_is_closed (broker env) \<or> connect_ok (broker env))
            \<and> publish_ok (broker env)
        then pubs = [spec_event_message ''reporte_verificado'' (Incidente.usuario_id inc) 50
               [(''incidente_id'', JNum rid),
                (''validaciones_count'', JNum (Incidente.validaciones_count inc')),
                (''tipo_incidente'', JStr (Incidente.tipo inc)),
                (''severidad'', JStr (severidad_value (Incidente.severidad inc)))]]
        else pubs = [])
    \<and> Incidente.usuario_id inc \<noteq> ValidacionRequest.usuario_id v
    \<and> Incidente.validaciones_count inc' = Incidente.validaciones_count inc + 1
    \<and> (\<forall>resp. res = Inr resp \<longrightarrow>
          ValidacionResponse.validaciones_count resp = Incidente.validaciones_count inc' \<and>
          verificado resp)
    \<and> (\<forall>pub \<in> set pubs.
          routing_key pub = ''reporte_verificado'' \<and>
          delivery_mode (message pub) = PERSISTENT \<and>
          (\<exists>payload. body (message pub) = json_dumps (JObj payload) \<and>
             list_all (\<lambda>kv. scalar (snd kv)) payload \<and>
             dict_get payload ''event_type'' = JStr ''reporte_verificado'' \<and>
             dict_get payload ''user_id'' = JNum (Incidente.usuario_id inc) \<and>
             dict_get payload ''puntos_base'' = JNum 50))"
proof -
  let ?n = "Incidente.validaciones_count inc + 1"
  let ?extra = "[(''incidente_id'', JNum rid),
          (''validaciones_count'', JNum ?n),
          (''tipo_incidente'', JStr (Incidente.tipo inc)),
          (''severidad'', JStr (severidad_value (Incidente.severidad inc)))]"
  note t = validar_reporte_transition [OF assms(1) assms(3) assms(4) assms(5) assms(6)]
  from t have n: "Incidente.validaciones_count inc' = ?n" by simp
  obtain ok p' ps where pe:
    "publish_event (broker env) p ''reporte_verificado'' (Incidente.usuario_id inc) 50 None ?extra
       = (ok, p', ps)"
    by (cases "publish_event (broker env) p ''reporte_verificado'' (Incidente.usuario_id inc)
          50 None ?extra") auto
  have pubs: "pubs = ps"
    using t assms(2) pe try_publish_started [of "broker env" p "''reporte_verificado''"
        "Incidente.usuario_id inc" 50 ?extra]
    by simp
  note c = publish_event_cases [OF pe]
  have msg: "\<forall>pub \<in> set ps.
          routing_key pub = ''reporte_verificado'' \<and>
          delivery_mode (message pub) = PERSISTENT \<and>
          (\<exists>payload. body (message pub) = json_dumps (JObj payload) \<and>
             list_all (\<lambda>kv. scalar (snd kv)) payload \<and>
             dict_get payload ''event_type'' = JStr ''reporte_verificado'' \<and>
             dict_get payload ''user_id'' = JNum (Incidente.usuario_id inc) \<and>
             dict_get payload ''puntos_base'' = JNum 50)"
    using c by (auto simp: spec_event_message_def json_dumps_def dict_get_def split: if_splits)
  have resp: "\<forall>resp. res = Inr resp \<longrightarrow>
          ValidacionResponse.validaciones_count resp = ?n \<and> verificado resp"
    using t by blast
  show ?thesis
    unfolding n pubs
    using startup_event_instance [of benv s0] t pe c msg resp
    by (simp split: if_splits)
qed

text \<open>
  In the scenario the validation of user 4 verifies the incident of user 1: one
  message, for user 1, with 50 points and the count 3.
\<close>

theorem verification_event_published_witness:
  "validar_reporte env_ok 1 (validacion_de 4) (app_con 2 PENDIENTE [2, 3]) =
     (Inr \<lparr>ValidacionResponse.incidente_id = 1,
           ValidacionResponse.usuario_id = 4,
           ValidacionResponse.validaciones_count = 3,
           ValidacionResponse.estado = VERIFICADO,
           verificado = True,
           mensaje = ReporteVerificado 3\<rparr>,
      app_con 3 VERIFICADO [2, 3, 4],
      [\<lparr>exchange = ''urban_drive_events'',
        routing_key = ''reporte_verificado'',
        message =
          \<lparr>body = Encoded (JObj [(''event_type'', JStr ''reporte_verificado''),
                                 (''user_id'', JNum 1),
                                 (''puntos_base'', JNum 50),
                                 (''incidente_id'', JNum 1),
                                 (''validaciones_count'', JNum 3),
                                 (''tipo_incidente'', JStr ''choque''),
                                 (''severidad'', JStr ''alta'')]),
           delivery_mode = PERSISTENT,
           content_type = ''application/json''\<rparr>\<rparr>])"
proof -
  let ?s = "app_con 2 PENDIENTE [2, 3]" and ?s' = "app_con 3 VERIFICADO [2, 3, 4]"
  let ?resp = "\<lparr>ValidacionResponse.incidente_id = 1,
           ValidacionResponse.usuario_id = 4,
           ValidacionResponse.validaciones_count = 3,
           ValidacionResponse.estado = VERIFICADO,
           verificado = True,
           mensaje = ReporteVerificado 3\<rparr>"
  define pubs where "pubs = snd (snd (validar_reporte env_ok 1 (validacion_de 4) ?s))"
  have run: "validar_reporte env_ok 1 (validacion_de 4) ?s = (Inr ?resp, ?s', pubs)"
    unfolding pubs_def
    by (simp add: validar_reporte_def escenario_defs validacion_existente_def Let_def
        try_publish_def get_producer_def ensure_connected_def connect_def publish_event_def)
  have 1: "incidentes (db ?s) 1 = Some (choque_con 2 PENDIENTE)"
    and 2: "producer_instance ?s = Some \<lparr>is_connected = True\<rparr>"
    and 4: "incidentes (db ?s') 1 = Some (choque_con 3 VERIFICADO)"
    and 5: "Incidente.estado (choque_con 2 PENDIENTE) \<noteq> VERIFICADO"
    and 6: "Incidente.estado (choque_con 3 VERIFICADO) = VERIFICADO"
    by (simp_all add: app_con_def choque_con_def)
  have acc: "(is_connected \<lparr>is_connected = True\<rparr> \<and> \<not> connection_is_closed (broker env_ok)
      \<or> connect_ok (broker env_ok)) \<and> publish_ok (broker env_ok)"
    by (simp add: env_ok_def broker_up_def)
  note th = verification_event_published [OF 1 2 run 4 5 6, of broker_up app_inicial]
  from th [THEN conjunct2, THEN conjunct2, THEN conjunct1]
  have "pubs = [spec_event_message ''reporte_verificado''
      (Incidente.usuario_id (choque_con 2 PENDIENTE)) 50
               [(''incidente_id'', JNum 1),
                (''validaciones_count'', JNum (Incidente.validaciones_count (choque_con 3 VERIFICADO))),
                (''tipo_incidente'', JStr (Incidente.tipo (choque_con 2 PENDIENTE))),
                (''severidad'', JStr (severidad_value (Incidente.severidad (choque_con 2 PENDIENTE))))]]"
    by (simp only: acc if_True)
  with run show ?thesis
    by (simp add: spec_event_message_def escenario_defs)
qed


subsection \<open>The default severity\<close>

lemma clasificar_severidad_default:
  assumes "\<forall>sev. answer \<noteq> Classified sev"
  shows "clasificar_severidad answer = MEDIA"
  using assms by (cases answer) simp_all

lemma reportar_incidente_stored:
  assumes "commit_ok env"
  shows "db (fst (snd (reportar_incidente env incidente s))) =
           (db s)\<lparr>incidentes := (incidentes (db s))(next_id (db s) \<mapsto>
                       nuevo_incidente incidente (clasificar_severidad (severity_answer env))),
                     next_id := next_id (db s) + 1\<rparr>"
  using assms by (auto simp: reportar_incidente_def Let_def split: prod.splits)

lemma reportar_incidente_commit:
  assumes "commit_ok env" and "refresh_ok env"
  shows "\<exists>s' pubs. reportar_incidente env incidente s =
           (Inr (next_id (db s),
                 nuevo_incidente incidente (clasificar_severidad (severity_answer env))),
            s', pubs) \<and>
           db s' = (db s)\<lparr>incidentes := (incidentes (db s))(next_id (db s) \<mapsto>
                       nuevo_incidente incidente (clasificar_severidad (severity_answer env))),
                     next_id := next_id (db s) + 1\<rparr>"
  using assms by (auto simp: reportar_incidente_def Let_def split: prod.splits)

text \<open>
  C7. \<^verbatim>\<open>clasificar_severidad\<close> always returns a severity: the one of a validated
  response, and \<^verbatim>\<open>media\<close> when the call times out, answers with an error status, fails
  in transport or raises anything else. A creation whose classification failed is the
  creation of an incident classified \<^verbatim>\<open>media\<close>: with the commit accepted the new
  incident is stored under its new id, pending, with severity \<^verbatim>\<open>media\<close>, and when the
  refresh after the commit returns as well the call returns that incident.
\<close>

theorem severity_default_media:
  "clasificar_severidad TimeoutException = MEDIA
   \<and> clasificar_severidad (HTTPStatusError code) = MEDIA
   \<and> clasificar_severidad RequestError = MEDIA
   \<and> clasificar_severidad UnexpectedError = MEDIA
   \<and> ((\<forall>sev. answer \<noteq> Classified sev) \<longrightarrow>
        clasificar_severidad answer = MEDIA
        \<and> reportar_incidente (env\<lparr>severity_answer := answer\<rparr>) incidente s =
            reportar_incidente (env\<lparr>severity_answer := Classified MEDIA\<rparr>) incidente s
        \<and> (commit_ok env \<and> refresh_ok env \<longrightarrow>
            (\<exists>inc s' pubs.
               reportar_incidente (env\<lparr>severity_answer := answer\<rparr>) incidente s =
                 (Inr (next_id (db s), inc), s', pubs) \<and>
               Incidente.severidad inc = MEDIA \<and>
               Incidente.estado inc = PENDIENTE \<and>
               Incidente.validaciones_count inc = 0 \<and>
               Incidente.usuario_id inc = IncidenteCreate.usuario_id incidente \<and>
               incidentes (db s') (next_id (db s)) = Some inc))
        \<and> (commit_ok env \<longrightarrow>
            incidentes (db (fst (snd (reportar_incidente (env\<lparr>severity_answer := answer\<rparr>)
                                        incidente s)))) (next_id (db s)) =
              Some (nuevo_incidente incidente MEDIA)))"
proof -
  have "clasificar_severidad answer = MEDIA
        \<and> reportar_incidente (env\<lparr>severity_answer := answer\<rparr>) incidente s =
            reportar_incidente (env\<lparr>severity_answer := Classified MEDIA\<rparr>) incidente s
        \<and> (commit_ok env \<and> refresh_ok env \<longrightarrow>
            (\<exists>inc s' pubs.
               reportar_incidente (env\<lparr>severity_answer := answer\<rparr>) incidente s =
                 (Inr (next_id (db s), inc), s', pubs) \<and>
               Incidente.severidad inc = MEDIA \<and>
               Incidente.estado inc = PENDIENTE \<and>
               Incidente.validaciones_count inc = 0 \<and>
               Incidente.usuario_id inc = IncidenteCreate.usuario_id incidente \<and>
               incidentes (db s') (next_id (db s)) = Some inc))
        \<and> (commit_ok env \<longrightarrow>
            incidentes (db (fst (snd (reportar_incidente (env\<lparr>severity_answer := answer\<rparr>)
                                        incidente s)))) (next_id (db s)) =
              Some (nuevo_incidente incidente MEDIA))"
    if a: "\<forall>sev. answer \<noteq> Classified sev"
  proof -
    have m: "clasificar_severidad answer = MEDIA"
      using a by (rule clasificar_severidad_default)
    have e: "reportar_incidente (env\<lparr>severity_answer := answer\<rparr>) incidente s =
            reportar_incidente (env\<lparr>severity_answer := Classified MEDIA\<rparr>) incidente s"
      by (simp add: reportar_incidente_def m Let_def)
    have c: "\<exists>inc s' pubs.
               reportar_incidente (env\<lparr>severity_answer := answer\<rparr>) incidente s =
                 (Inr (next_id (db s), inc), s', pubs) \<and>
               Incidente.severidad inc = MEDIA \<and>
               Incidente.estado inc = PENDIENTE \<and>
               Incidente.validaciones_count inc = 0 \<and>
               Incidente.usuario_id inc = IncidenteCreate.usuario_id incidente \<and>
               incidentes (db s') (next_id (db s)) = Some inc"
      if "commit_ok env \<and> refresh_ok env"
    proof -
      from that have "commit_ok (env\<lparr>severity_answer := answer\<rparr>)"
        and "refresh_ok (env\<lparr>severity_answer := answer\<rparr>)" by simp_all
      from reportar_incidente_commit [OF this, of incidente s]
      obtain s' pubs where
        "reportar_incidente (env\<lparr>severity_answer := answer\<rparr>) incidente s =
           (Inr (next_id (db s), nuevo_incidente incidente MEDIA), s', pubs)"
        and "db s' = (db s)\<lparr>incidentes := (incidentes (db s))(next_id (db s) \<mapsto>
                       nuevo_incidente incidente MEDIA),
                     next_id := next_id (db s) + 1\<rparr>"
        using m by auto
      then show ?thesis by (simp add: nuevo_incidente_def)
    qed
    have st: "incidentes (db (fst (snd (reportar_incidente (env\<lparr>severity_answer := answer\<rparr>)
                                        incidente s)))) (next_id (db s)) =
              Some (nuevo_incidente incidente MEDIA)"
      if "commit_ok env"
    proof -
      from that have "commit_ok (env\<lparr>severity_answer := answer\<rparr>)" by simp
      from reportar_incidente_stored [OF this, of incidente s] m show ?thesis by simp
    qed
    from m e c st show ?thesis by blast
  qed
  moreover have "clasificar_severidad TimeoutException = MEDIA"
    "clasificar_severidad (HTTPStatusError code) = MEDIA"
    "clasificar_severidad RequestError = MEDIA"
    "clasificar_severidad UnexpectedError = MEDIA"
    by simp_all
  ultimately show ?thesis by blast
qed

text \<open>
  In the scenario the report of the collision meets a classifier that times out: the
  incident is created as incident 1 with severity \<^verbatim>\<open>media\<close>.
\<close>

theorem severity_default_media_witness:
  "(\<forall>sev. TimeoutException \<noteq> Classified sev) \<and> commit_ok env_ok \<and> refresh_ok env_ok
   \<and> clasificar_severidad TimeoutException = MEDIA
   \<and> (\<exists>s' pubs.
        reportar_incidente (env_ok\<lparr>severity_answer := TimeoutException\<rparr>) choque app_inicial =
          (Inr (1, nuevo_incidente choque MEDIA), s', pubs) \<and>
        incidentes (db s') 1 = Some (nuevo_incidente choque MEDIA))"
proof -
  have h: "\<forall>sev. TimeoutException \<noteq> Classified sev" by simp
  have c: "commit_ok env_ok \<and> refresh_ok env_ok" by (simp add: env_ok_def)
  have n: "next_id (db app_inicial) = 1" by (simp add: app_inicial_def)
  have r: "fst (reportar_incidente (env_ok\<lparr>severity_answer := TimeoutException\<rparr>) choque app_inicial)
      = Inr (1, nuevo_incidente choque MEDIA)"
    using c by (simp add: reportar_incidente_def n Let_def split: prod.splits)
  from severity_default_media [of _ TimeoutException env_ok choque app_inicial] h c
  obtain inc s' pubs where
    "reportar_incidente (env_ok\<lparr>severity_answer := TimeoutException\<rparr>) choque app_inicial =
       (Inr (next_id (db app_inicial), inc), s', pubs)"
    and "incidentes (db s') (next_id (db app_inicial)) = Some inc"
    by blast
  with r n have "reportar_incidente (env_ok\<lparr>severity_answer := TimeoutException\<rparr>) choque app_inicial =
          (Inr (1, nuevo_incidente choque MEDIA), s', pubs) \<and>
        incidentes (db s') 1 = Some (nuevo_incidente choque MEDIA)"
    by simp
  with h c show ?thesis by auto
qed

subsection \<open>Publication failures and errors\<close>



lemma reportar_incidente_refused:
  assumes "\<not> commit_ok env"
  shows "reportar_incidente env incidente s =
     (Inl (HTTPException 500 ErrorAlReportarElIncidente), s, [])"
  using assms by (simp add: reportar_incidente_def Let_def)











subsection \<open>The lifecycle of an incident\<close>

lemma validadores_append:
  "validadores (d\<lparr>validaciones := validaciones d @ [x]\<rparr>) i =
     (if incidente_id x = i then insert (ValidacionIncidente.usuario_id x) (validadores d i)
      else validadores d i)"
  by (auto simp: validadores_def)

lemma validadores_other_fields [simp]:
  "validadores (d\<lparr>incidentes := m\<rparr>) i = validadores d i"
  "validadores (d\<lparr>next_id := k\<rparr>) i = validadores d i"
  by (auto simp: validadores_def)

lemma finite_validadores [simp]: "finite (validadores d i)"
  by (simp add: validadores_def)

lemma validacion_existente_None:
  "validacion_existente d r u = None \<longleftrightarrow> u \<notin> validadores d r"
  by (auto simp: validacion_existente_def validadores_def find_None_iff)

lemma reportar_incidente_db:
  assumes "reportar_incidente env incidente s = (res, s', pubs)"
  shows "db s' = db s \<or>
     db s' = (db s)\<lparr>incidentes := (incidentes (db s))(next_id (db s) \<mapsto>
                 nuevo_incidente incidente (clasificar_severidad (severity_answer env))),
               next_id := next_id (db s) + 1\<rparr>"
proof (cases "commit_ok env")
  case False
  with assms show ?thesis by (simp add: reportar_incidente_refused)
next
  case True
  from reportar_incidente_stored [OF True, of incidente s] assms show ?thesis by simp
qed

lemma validar_reporte_db:
  assumes "validar_reporte env rid v s = (res, s', pubs)"
  shows "db s' = db s \<or>
    (\<exists>inc. incidentes (db s) rid = Some inc \<and>
       ValidacionRequest.usuario_id v \<notin> validadores (db s) rid \<and>
       Incidente.estado inc \<noteq> VERIFICADO \<and>
       db s' = (db s)\<lparr>incidentes := (incidentes (db s))(rid \<mapsto> sumar_validacion inc),
                         validaciones := validaciones (db s) @
                           [\<lparr>incidente_id = rid,
                             ValidacionIncidente.usuario_id = ValidacionRequest.usuario_id v\<rparr>]\<rparr>)"
proof (cases "incidentes (db s) rid")
  case None
  with assms show ?thesis by (simp add: validar_reporte_def)
next
  case (Some inc)
  show ?thesis
  proof (cases "Incidente.usuario_id inc = ValidacionRequest.usuario_id v
      \<or> validacion_existente (db s) rid (ValidacionRequest.usuario_id v) \<noteq> None
      \<or> Incidente.estado inc = VERIFICADO \<or> \<not> commit_ok env")
    case True
    with assms Some show ?thesis
      by (auto simp: validar_reporte_def Let_def split: if_splits prod.splits)
  next
    case False
    with assms Some show ?thesis
      by (auto simp: validar_reporte_def Let_def validacion_existente_None sumar_validacion_def
          split: if_splits prod.splits)
  qed
qed

lemma consistentD:
  assumes "consistent d H"
  shows "finite H" "distinct (validaciones d)"
    "\<And>w. w \<in> set (validaciones d) \<Longrightarrow>
       (incidente_id w, ValidacionIncidente.usuario_id w) \<in> H"
    "\<And>w. w \<in> set (validaciones d) \<Longrightarrow> incidentes d (incidente_id w) \<noteq> None"
    "\<And>i inc. incidentes d i = Some inc \<Longrightarrow> i < next_id d"
    "\<And>i inc. incidentes d i = Some inc \<Longrightarrow>
       Incidente.validaciones_count inc = int (card (validadores d i))"
    "\<And>i inc. incidentes d i = Some inc \<Longrightarrow> Incidente.validaciones_count inc \<le> 3"
    "\<And>i inc. incidentes d i = Some inc \<Longrightarrow>
       (Incidente.estado inc = VERIFICADO) = (Incidente.validaciones_count inc = 3)"
  using assms unfolding consistent_def by blast+

lemma consistentI:
  assumes "finite H" "distinct (validaciones d)"
    "\<And>w. w \<in> set (validaciones d) \<Longrightarrow>
       (incidente_id w, ValidacionIncidente.usuario_id w) \<in> H"
    "\<And>w. w \<in> set (validaciones d) \<Longrightarrow> incidentes d (incidente_id w) \<noteq> None"
    "\<And>i inc. incidentes d i = Some inc \<Longrightarrow> i < next_id d"
    "\<And>i inc. incidentes d i = Some inc \<Longrightarrow>
       Incidente.validaciones_count inc = int (card (validadores d i))"
    "\<And>i inc. incidentes d i = Some inc \<Longrightarrow> Incidente.validaciones_count inc \<le> 3"
    "\<And>i inc. incidentes d i = Some inc \<Longrightarrow>
       (Incidente.estado inc = VERIFICADO) = (Incidente.validaciones_count inc = 3)"
  shows "consistent d H"
  using assms unfolding consistent_def by blast

lemma consistent_insert:
  assumes "consistent d H"
  shows "consistent d (insert x H)"
proof (rule consistentI)
  show "finite (insert x H)" using consistentD(1) [OF assms] by simp
  show "(incidente_id w, ValidacionIncidente.usuario_id w) \<in> insert x H"
    if "w \<in> set (validaciones d)" for w
    using consistentD(3) [OF assms that] by simp
qed (use consistentD [OF assms] in blast)+

lemma consistent_report:
  assumes c: "consistent d H" and z: "Incidente.validaciones_count inc = 0"
    and p: "Incidente.estado inc = PENDIENTE"
  shows "consistent (d\<lparr>incidentes := (incidentes d)(next_id d \<mapsto> inc),
                       next_id := next_id d + 1\<rparr>) H"
    (is "consistent ?d' H")
proof -
  note D = consistentD [OF c]
  have none: "incidentes d (next_id d) = None"
    using D(5) [of "next_id d"] by (cases "incidentes d (next_id d)") auto
  have "incidente_id w \<noteq> next_id d" if "w \<in> set (validaciones d)" for w
    using D(4) [OF that] none by auto
  then have empty: "validadores d (next_id d) = {}"
    by (auto simp: validadores_def)
  show ?thesis
  proof (rule consistentI)
    fix i j
    assume a: "incidentes ?d' i = Some j"
    show "i < next_id ?d'"
      using a D(5) [of i j] by (auto split: if_splits)
    show "Incidente.validaciones_count j = int (card (validadores ?d' i))"
      using a D(6) [of i j] z empty by (auto split: if_splits)
    show "Incidente.validaciones_count j \<le> 3"
      using a D(7) [of i j] z by (auto split: if_splits)
    show "(Incidente.estado j = VERIFICADO) = (Incidente.validaciones_count j = 3)"
      using a D(8) [of i j] z p by (auto split: if_splits)
  qed (use D in auto)
qed

lemma sumar_validacion_count [simp]:
  "Incidente.validaciones_count (sumar_validacion inc) = Incidente.validaciones_count inc + 1"
  by (simp add: sumar_validacion_def)

lemma sumar_validacion_estado:
  "Incidente.estado (sumar_validacion inc) =
     (if Incidente.validaciones_count inc + 1 \<ge> 3 then VERIFICADO else Incidente.estado inc)"
  by (simp add: sumar_validacion_def)

lemma consistent_validate:
  assumes c: "consistent d H" and i: "incidentes d rid = Some inc"
    and u: "u \<notin> validadores d rid" and e: "Incidente.estado inc \<noteq> VERIFICADO"
  shows "consistent (d\<lparr>incidentes := (incidentes d)(rid \<mapsto> sumar_validacion inc),
                       validaciones := validaciones d @
                         [\<lparr>incidente_id = rid, ValidacionIncidente.usuario_id = u\<rparr>]\<rparr>)
           (insert (rid, u) H)"
    (is "consistent ?d' ?H'")
proof -
  note D = consistentD [OF c]
  let ?x = "\<lparr>incidente_id = rid, ValidacionIncidente.usuario_id = u\<rparr>"
  have notin: "?x \<notin> set (validaciones d)"
    using u by (force simp: validadores_def)
  have cnt: "Incidente.validaciones_count inc = int (card (validadores d rid))"
    and le: "Incidente.validaciones_count inc \<le> 3"
    and ver: "(Incidente.estado inc = VERIFICADO) = (Incidente.validaciones_count inc = 3)"
    using D(6-8) [OF i] by auto
  have lt: "Incidente.validaciones_count inc < 3" using le ver e by auto
  have card: "int (card (insert u (validadores d rid))) = Incidente.validaciones_count inc + 1"
    using u cnt by simp
  have vals: "validadores ?d' k =
      (if k = rid then insert u (validadores d rid) else validadores d k)" for k
    using validadores_append
      [of "d\<lparr>incidentes := (incidentes d)(rid \<mapsto> sumar_validacion inc)\<rparr>" ?x k]
    by auto
  show ?thesis
  proof (rule consistentI)
    fix k j
    assume a: "incidentes ?d' k = Some j"
    show "k < next_id ?d'"
      using a D(5) [of k j] D(5) [OF i] by (auto split: if_splits)
    show "Incidente.validaciones_count j = int (card (validadores ?d' k))"
      unfolding vals using a D(6) [of k j] card by (auto split: if_splits)
    show "Incidente.validaciones_count j \<le> 3"
      using a D(7) [of k j] lt by (auto split: if_splits)
    show "(Incidente.estado j = VERIFICADO) = (Incidente.validaciones_count j = 3)"
      using a D(8) [of k j] lt e by (auto simp: sumar_validacion_estado split: if_splits)
  next
    show "distinct (validaciones ?d')" using D(2) notin by simp
  next
    fix w assume "w \<in> set (validaciones ?d')"
    then have w: "w = ?x \<or> w \<in> set (validaciones d)" by auto
    show "(incidente_id w, ValidacionIncidente.usuario_id w) \<in> ?H'"
      using w D(3) [of w] by auto
    show "incidentes ?d' (incidente_id w) \<noteq> None"
      using w D(4) [of w] by auto
  qed (use D in auto)
qed

lemma reportar_incidente_consistent:
  assumes "consistent (db s) H" and "reportar_incidente env incidente s = (res, s', pubs)"
  shows "consistent (db s') H"
  using reportar_incidente_db [OF assms(2)] assms(1)
    consistent_report [of "db s" H
      "nuevo_incidente incidente (clasificar_severidad (severity_answer env))"]
  by (auto simp: nuevo_incidente_def)

lemma validar_reporte_consistent:
  assumes "consistent (db s) H" and "validar_reporte env rid v s = (res, s', pubs)"
  shows "consistent (db s') (insert (rid, ValidacionRequest.usuario_id v) H)"
  using validar_reporte_db [OF assms(2)] assms(1)
    consistent_validate [of "db s" H rid _ "ValidacionRequest.usuario_id v"]
    consistent_insert [of "db s" H "(rid, ValidacionRequest.usuario_id v)"]
  by auto

lemma lifecycle_consistent: "lifecycle s H C \<Longrightarrow> consistent (db s) C \<and> H \<subseteq> C"
proof (induction rule: lifecycle.induct)
  case (start s)
  then show ?case by (simp add: consistent_def)
next
  case (report s H C env incidente res s' pubs)
  then show ?case by (auto intro: reportar_incidente_consistent)
next
  case (validate_ok s H C env rid v resp s' pubs)
  then show ?case by (auto intro: validar_reporte_consistent)
next
  case (validate_error s H C env rid v e s' pubs)
  have c: "consistent (db s) C" and sub: "H \<subseteq> C"
    using validate_error.IH by simp_all
  show ?case
  proof (cases "db s' = db s")
    case True
    with c sub show ?thesis by simp
  next
    case False
    with validar_reporte_consistent [OF c validate_error.hyps(2)] sub show ?thesis by auto
  qed
qed

lemma distinct_filter_eq: "distinct xs \<Longrightarrow> length (filter (\<lambda>w. w = x) xs) \<le> 1"
  by (induction xs) (auto simp: filter_empty_conv)


lemma validar_reporte_step:
  assumes c: "consistent (db s) H" and i: "incidentes (db s) i = Some inc"
    and v: "validar_reporte env rid v s = (res, s', pubs)"
  shows "\<exists>inc'. incidentes (db s') i = Some inc' \<and>
     Incidente.validaciones_count inc \<le> Incidente.validaciones_count inc' \<and>
     Incidente.validaciones_count inc' \<le> Incidente.validaciones_count inc + 1 \<and>
     (Incidente.estado inc = VERIFICADO \<longrightarrow>
        Incidente.estado inc' = VERIFICADO \<and>
        Incidente.validaciones_count inc' = Incidente.validaciones_count inc) \<and>
     ((Incidente.estado inc \<noteq> VERIFICADO \<and> Incidente.estado inc' = VERIFICADO) =
      (Incidente.validaciones_count inc = 2 \<and> Incidente.validaciones_count inc' = 3))"
proof -
  note D = consistentD [OF c]
  have ver: "(Incidente.estado inc = VERIFICADO) = (Incidente.validaciones_count inc = 3)"
    using D(8) [OF i] .
  from validar_reporte_db [OF v] show ?thesis
  proof
    assume "db s' = db s"
    with i ver show ?thesis by auto
  next
    assume "\<exists>j. incidentes (db s) rid = Some j \<and>
       ValidacionRequest.usuario_id v \<notin> validadores (db s) rid \<and>
       Incidente.estado j \<noteq> VERIFICADO \<and>
       db s' = (db s)\<lparr>incidentes := (incidentes (db s))(rid \<mapsto> sumar_validacion j),
                         validaciones := validaciones (db s) @
                           [\<lparr>incidente_id = rid,
                             ValidacionIncidente.usuario_id = ValidacionRequest.usuario_id v\<rparr>]\<rparr>"
    then obtain j where j: "incidentes (db s) rid = Some j"
      and e: "Incidente.estado j \<noteq> VERIFICADO"
      and d: "db s' = (db s)\<lparr>incidentes := (incidentes (db s))(rid \<mapsto> sumar_validacion j),
                         validaciones := validaciones (db s) @
                           [\<lparr>incidente_id = rid,
                             ValidacionIncidente.usuario_id = ValidacionRequest.usuario_id v\<rparr>]\<rparr>"
      by blast
    show ?thesis
    proof (cases "i = rid")
      case False
      with i ver d show ?thesis by auto
    next
      case True
      with i j have ji: "j = inc" by simp
      have "Incidente.validaciones_count inc \<le> 3" using D(7) [OF i] .
      with ver e ji have "Incidente.validaciones_count inc < 3" by auto
      with True d ji e show ?thesis
        by (auto simp: sumar_validacion_estado)
    qed
  qed
qed

text \<open>
  C1, as stated, fails in one point: the counter can exceed the number of users with
  a successful validation. In the scenario, after the creation by user 1, the
  validation of user 2 is committed and the refresh after the commit raises: the call
  is answered 500, no validation call has returned a response, and the counter of the
  incident is 1.
\<close>

theorem counter_exceeds_successful_validations:
  "lifecycle (app_con 1 PENDIENTE [2]) {} {(1, 2)}
   \<and> fst (validar_reporte (env_ok\<lparr>refresh_ok := False\<rparr>) 1 (validacion_de 2)
         (app_con 0 PENDIENTE [])) = Inl (HTTPException 500 ErrorAlValidarElReporte)
   \<and> incidentes (db (app_con 1 PENDIENTE [2])) 1 = Some (choque_con 1 PENDIENTE)
   \<and> Incidente.validaciones_count (choque_con 1 PENDIENTE) = 1
   \<and> \<not> Incidente.validaciones_count (choque_con 1 PENDIENTE) \<le> int (card ({} :: int set))"
proof -
  have l0: "lifecycle app_inicial {} {}"
    by (rule lifecycle.start) (simp_all add: app_inicial_def)
  have "\<exists>res pubs. reportar_incidente env_ok choque app_inicial =
      (res, app_con 0 PENDIENTE [], pubs)"
    by (simp add: reportar_incidente_def escenario_defs try_publish_def get_producer_def
        ensure_connected_def connect_def publish_event_def Let_def)
  then have l1: "lifecycle (app_con 0 PENDIENTE []) {} {}"
    using l0 by (auto intro: lifecycle.report)
  have run: "validar_reporte (env_ok\<lparr>refresh_ok := False\<rparr>) 1 (validacion_de 2)
      (app_con 0 PENDIENTE []) =
      (Inl (HTTPException 500 ErrorAlValidarElReporte), app_con 1 PENDIENTE [2], [])"
    by (simp add: validar_reporte_def escenario_defs validacion_existente_def Let_def)
  have "validaciones (db (app_con 1 PENDIENTE [2])) \<noteq> validaciones (db (app_con 0 PENDIENTE []))"
    by (simp add: app_con_def)
  then have ne: "db (app_con 1 PENDIENTE [2]) \<noteq> db (app_con 0 PENDIENTE [])" by auto
  have u: "ValidacionRequest.usuario_id (validacion_de 2) = 2"
    by (simp add: validacion_de_def)
  from lifecycle.validate_error [OF l1 run] ne u
  have l2: "lifecycle (app_con 1 PENDIENTE [2]) {} {(1, 2)}" by simp
  have i: "incidentes (db (app_con 1 PENDIENTE [2])) 1 = Some (choque_con 1 PENDIENTE)"
    by (simp add: app_con_def)
  have n: "Incidente.validaciones_count (choque_con 1 PENDIENTE) = 1"
    by (simp add: choque_con_def)
  from l2 run i n show ?thesis by simp
qed

text \<open>
  C1, amended. Take any state the service reaches from empty tables by creations and
  validations, under any behaviour of classifier, broker and database, and any incident
  in it. Its counter is not negative and equals the number of users with a validation
  row for it; every such user made a validation call on it whose write was committed,
  a call that returned a response or that was answered with an error after its commit,
  and every call that returned a response is among the recorded ones; so the counter
  never exceeds the number of distinct users whose validation was committed. No pair of
  incident and user has more than one row. The counter is at most 3 and the state is
  \<^verbatim>\<open>verificado\<close> exactly when the counter is 3. A further validation call on any incident
  leaves the counter or adds one to it, never touches a verified incident, and makes
  the incident verified exactly when it takes the counter from 2 to 3; a further
  creation leaves the incident as it is.
\<close>

theorem validation_lifecycle_invariant:
  assumes "lifecycle s H C" and "incidentes (db s) i = Some inc"
  shows "0 \<le> Incidente.validaciones_count inc
    \<and> Incidente.validaciones_count inc = int (card (validadores (db s) i))
    \<and> validadores (db s) i \<subseteq> {u. (i, u) \<in> C}
    \<and> Incidente.validaciones_count inc \<le> int (card {u. (i, u) \<in> C})
    \<and> H \<subseteq> C
    \<and> (\<forall>u. length (filter (\<lambda>w. incidente_id w = i \<and> ValidacionIncidente.usuario_id w = u)
                 (validaciones (db s))) \<le> 1)
    \<and> Incidente.validaciones_count inc \<le> 3
    \<and> (Incidente.estado inc = VERIFICADO) = (Incidente.validaciones_count inc = 3)
    \<and> (\<forall>env rid v res s' pubs. validar_reporte env rid v s = (res, s', pubs) \<longrightarrow>
         (\<exists>inc'. incidentes (db s') i = Some inc' \<and>
            Incidente.validaciones_count inc \<le> Incidente.validaciones_count inc' \<and>
            Incidente.validaciones_count inc' \<le> Incidente.validaciones_count inc + 1 \<and>
            (Incidente.estado inc = VERIFICADO \<longrightarrow>
               Incidente.estado inc' = VERIFICADO \<and>
               Incidente.validaciones_count inc' = Incidente.validaciones_count inc) \<and>
            ((Incidente.estado inc \<noteq> VERIFICADO \<and> Incidente.estado inc' = VERIFICADO) =
             (Incidente.validaciones_count inc = 2 \<and> Incidente.validaciones_count inc' = 3))))
    \<and> (\<forall>env incidente res s' pubs. reportar_incidente env incidente s = (res, s', pubs) \<longrightarrow>
         incidentes (db s') i = Some inc)"
proof -
  have c: "consistent (db s) C" and hc: "H \<subseteq> C"
    using lifecycle_consistent [OF assms(1)] by simp_all
  note D = consistentD [OF c]
  have cnt: "Incidente.validaciones_count inc = int (card (validadores (db s) i))"
    using D(6) [OF assms(2)] .
  then have nonneg: "0 \<le> Incidente.validaciones_count inc" by simp
  have sub: "validadores (db s) i \<subseteq> {u. (i, u) \<in> C}"
    using D(3) by (auto simp: validadores_def)
  have "{u. (i, u) \<in> C} \<subseteq> snd ` C" by force
  then have fin: "finite {u. (i, u) \<in> C}"
    using D(1) by (meson finite_imageI finite_subset)
  have bound: "Incidente.validaciones_count inc \<le> int (card {u. (i, u) \<in> C})"
    unfolding cnt using card_mono [OF fin sub] by simp
  have one: "length (filter (\<lambda>w. incidente_id w = i \<and> ValidacionIncidente.usuario_id w = u)
                 (validaciones (db s))) \<le> 1" for u
  proof -
    have "(\<lambda>w. incidente_id w = i \<and> ValidacionIncidente.usuario_id w = u) =
          (\<lambda>w. w = \<lparr>incidente_id = i, ValidacionIncidente.usuario_id = u\<rparr>)"
      by (rule ext) auto
    then show ?thesis using distinct_filter_eq [OF D(2)] by simp
  qed
  have le: "Incidente.validaciones_count inc \<le> 3" using D(7) [OF assms(2)] .
  have ver: "(Incidente.estado inc = VERIFICADO) = (Incidente.validaciones_count inc = 3)"
    using D(8) [OF assms(2)] .
  have rep: "incidentes (db s') i = Some inc"
    if "reportar_incidente env incidente s = (res, s', pubs)" for env incidente res s' pubs
    using reportar_incidente_db [OF that] assms(2) D(5) [OF assms(2)] by auto
  from nonneg cnt sub bound hc one le ver rep validar_reporte_step [OF c assms(2)]
  show ?thesis by blast
qed

text \<open>
  The scenario as a history: from empty tables user 1 reports the collision, then users
  2, 3 and 4 validate it. The incident ends verified with a counter of 3, which is the
  number of its validators.
\<close>

theorem validation_lifecycle_invariant_witness:
  "lifecycle (app_con 3 VERIFICADO [2, 3, 4]) {(1, 2), (1, 3), (1, 4)} {(1, 2), (1, 3), (1, 4)}
   \<and> incidentes (db (app_con 3 VERIFICADO [2, 3, 4])) 1 = Some (choque_con 3 VERIFICADO)
   \<and> Incidente.validaciones_count (choque_con 3 VERIFICADO) = 3
   \<and> int (card (validadores (db (app_con 3 VERIFICADO [2, 3, 4])) 1)) = 3
   \<and> Incidente.estado (choque_con 3 VERIFICADO) = VERIFICADO"
proof -
  have l0: "lifecycle app_inicial {} {}"
    by (rule lifecycle.start) (simp_all add: app_inicial_def)
  have "\<exists>res pubs. reportar_incidente env_ok choque app_inicial =
      (res, app_con 0 PENDIENTE [], pubs)"
    by (simp add: reportar_incidente_def escenario_defs try_publish_def get_producer_def
        ensure_connected_def connect_def publish_event_def Let_def)
  then have l1: "lifecycle (app_con 0 PENDIENTE []) {} {}"
    using l0 by (auto intro: lifecycle.report)
  have u: "ValidacionRequest.usuario_id (validacion_de k) = k" for k
    by (simp add: validacion_de_def)
  have "\<exists>resp pubs. validar_reporte env_ok 1 (validacion_de 2) (app_con 0 PENDIENTE []) =
      (Inr resp, app_con 1 PENDIENTE [2], pubs)"
    by (simp add: validar_reporte_def escenario_defs validacion_existente_def Let_def)
  then have l2: "lifecycle (app_con 1 PENDIENTE [2]) {(1, 2)} {(1, 2)}"
    using lifecycle.validate_ok [OF l1, of env_ok 1 "validacion_de 2"] u by auto
  have "\<exists>resp pubs. validar_reporte env_ok 1 (validacion_de 3) (app_con 1 PENDIENTE [2]) =
      (Inr resp, app_con 2 PENDIENTE [2, 3], pubs)"
    by (simp add: validar_reporte_def escenario_defs validacion_existente_def Let_def)
  then have l3: "lifecycle (app_con 2 PENDIENTE [2, 3]) {(1, 3), (1, 2)} {(1, 3), (1, 2)}"
    using lifecycle.validate_ok [OF l2, of env_ok 1 "validacion_de 3"] u by auto
  have "\<exists>resp pubs. validar_reporte env_ok 1 (validacion_de 4) (app_con 2 PENDIENTE [2, 3]) =
      (Inr resp, app_con 3 VERIFICADO [2, 3, 4], pubs)"
    by (simp add: validar_reporte_def escenario_defs validacion_existente_def Let_def
        try_publish_def get_producer_def ensure_connected_def connect_def publish_event_def)
  then have "lifecycle (app_con 3 VERIFICADO [2, 3, 4]) {(1, 4), (1, 3), (1, 2)}
      {(1, 4), (1, 3), (1, 2)}"
    using lifecycle.validate_ok [OF l3, of env_ok 1 "validacion_de 4"] u by auto
  moreover have "{(1, 4), (1, 3), (1, 2)} = {(1::int, 2::int), (1, 3), (1, 4)}" by auto
  ultimately have l4: "lifecycle (app_con 3 VERIFICADO [2, 3, 4]) {(1, 2), (1, 3), (1, 4)}
      {(1, 2), (1, 3), (1, 4)}"
    by simp
  have i: "incidentes (db (app_con 3 VERIFICADO [2, 3, 4])) 1 = Some (choque_con 3 VERIFICADO)"
    by (simp add: app_con_def)
  have n: "Incidente.validaciones_count (choque_con 3 VERIFICADO) = 3"
    by (simp add: choque_con_def)
  from validation_lifecycle_invariant [OF l4 i] n l4 i show ?thesis by simp
qed

subsection \<open>The integer square root of the level\<close>

lemma isqrt_from_square: "isqrt_from k n * isqrt_from k n \<le> n"
  by (induction k) simp_all

lemma isqrt_from_greatest: "m \<le> k \<Longrightarrow> m * m \<le> n \<Longrightarrow> m \<le> isqrt_from k n"
proof (induction k)
  case 0
  then show ?case by simp
next
  case (Suc k)
  show ?case
  proof (cases "Suc k * Suc k \<le> n")
    case True
    with Suc.prems show ?thesis by simp
  next
    case False
    with Suc.prems have "m \<noteq> Suc k" by auto
    with Suc.prems have "m \<le> k" by simp
    with Suc.IH Suc.prems False show ?thesis by simp
  qed
qed

lemma isqrt_floor: "isqrt n * isqrt n \<le> n \<and> n < (isqrt n + 1) * (isqrt n + 1)"
proof -
  have "\<not> (isqrt n + 1) * (isqrt n + 1) \<le> n"
  proof
    assume a: "(isqrt n + 1) * (isqrt n + 1) \<le> n"
    have "isqrt n + 1 \<le> (isqrt n + 1) * (isqrt n + 1)" by simp
    with a have "isqrt n + 1 \<le> n" by linarith
    from isqrt_from_greatest [OF this a] show False by (simp add: isqrt_def)
  qed
  then show ?thesis using isqrt_from_square [of n n] by (simp add: isqrt_def)
qed


subsection \<open>The user id of a reward\<close>

text \<open>
  \<open>integer_id\<close> accepts exactly the texts that \<^verbatim>\<open>str\<close> gives for an integer: a string id
  addresses the keys of \<open>n\<close> if and only if it is \<open>str_int n\<close>.
\<close>

lemma digit_char:
  assumes "d < 10"
  shows "''0123456789'' ! d \<in> set ''0123456789'' \<and> of_char (''0123456789'' ! d) - 48 = d"
proof -
  from assms have "d \<in> {0, 1, 2, 3, 4, 5, 6, 7, 8, 9}" by auto
  then show ?thesis by auto
qed

lemma digits_value_snoc:
  "digits_value acc (xs @ [c]) =
     (case digits_value acc xs of
        None \<Rightarrow> None
      | Some n \<Rightarrow> if c \<in> set ''0123456789'' then Some (10 * n + (of_char c - 48)) else None)"
  by (induction xs arbitrary: acc) auto

lemma digits_value_str_nat: "digits_value 0 (str_nat n) = Some n"
proof (induction n rule: str_nat.induct)
  case (1 n)
  show ?case
  proof (cases "n < 10")
    case True
    with digit_char [OF True] show ?thesis by (subst str_nat.simps) simp
  next
    case False
    have m: "n mod 10 < 10" by simp
    from False 1 have ih: "digits_value 0 (str_nat (n div 10)) = Some (n div 10)" by simp
    show ?thesis
      using False ih digit_char [OF m]
      by (subst str_nat.simps) (simp add: digits_value_snoc)
  qed
qed

lemma str_nat_not_empty: "str_nat n \<noteq> []"
  by (subst str_nat.simps) simp

lemma str_nat_hd: "hd (str_nat n) \<noteq> CHR ''-''"
proof (induction n rule: str_nat.induct)
  case (1 n)
  show ?case
  proof (cases "n < 10")
    case True
    with digit_char [OF True] show ?thesis by (subst str_nat.simps) auto
  next
    case False
    with 1 str_nat_not_empty [of "n div 10"] show ?thesis
      by (subst str_nat.simps) simp
  qed
qed

lemma int_of_text_str_int: "int_of_text (str_int n) = Some n"
proof (cases "n < 0")
  case True
  obtain d ds where c: "str_nat (nat (- n)) = d # ds"
    using str_nat_not_empty [of "nat (- n)"] by (cases "str_nat (nat (- n))") auto
  from True c digits_value_str_nat [of "nat (- n)"] show ?thesis
    by (simp add: int_of_text_def str_int_def)
next
  case False
  obtain d ds where c: "str_nat (nat n) = d # ds"
    using str_nat_not_empty [of "nat n"] by (cases "str_nat (nat n)") auto
  with str_nat_hd [of "nat n"] have "d \<noteq> CHR ''-''" by simp
  with False c digits_value_str_nat [of "nat n"] show ?thesis
    by (simp add: int_of_text_def str_int_def)
qed

lemma integer_id_text: "integer_id (JStr t) = Some n \<longleftrightarrow> t = str_int n"
  by (auto simp: integer_id_def int_of_text_str_int split: option.splits if_splits)

lemma integer_id_examples:
  "integer_id (JStr ''7'') = Some 7"
  "integer_id (JStr ''-12'') = Some (- 12)"
  "integer_id (JStr ''07'') = None"
  "integer_id (JStr ''abc'') = None"
  "integer_id (JNum 7) = Some 7"
  by (simp_all add: integer_id_def int_of_text_def str_int_def)

text \<open>
  The handler makes no difference between the number \<open>n\<close> and the string of its text:
  both rewards go to the same keys, and the record echoes the id as it was read.
\<close>

lemma process_validated_report_text_id:
  "snd (process_validated_report r
          [(''type'', JStr ''reporte_validado''),
           (''data'', JObj [(''usuario_id'', JStr (str_int n))])]) =
   snd (process_validated_report r (evento_validado n))"
proof -
  have i: "integer_id (JStr (str_int n)) = Some n" by (simp add: integer_id_text)
  have j: "integer_id (JNum n) = Some n" by (simp add: integer_id_def)
  show ?thesis
    by (simp add: process_validated_report_def event_data_def dict_get_def evento_validado_def
        i j split: prod.splits)
qed

lemma process_validated_report_string_seven:
  "process_validated_report redis_con
     [(''type'', JStr ''reporte_validado''), (''data'', JObj [(''usuario_id'', JStr ''7'')])] =
   (Inr (Recompensa
      \<lparr>user_id = JStr ''7'', total_xp = 105, total_coins = 45, xp_awarded = 10,
       coins_awarded = 5, new_badges = [''Explorador Urbano''],
       all_badges = [''Explorador Urbano'']\<rparr>),
    snd (process_validated_report redis_con (evento_validado 7)))"
proof -
  have i: "integer_id (JStr ''7'') = Some 7"
    by (simp add: integer_id_def int_of_text_def str_int_def)
  have j: "integer_id (JNum 7) = Some 7" by (simp add: integer_id_def)
  show ?thesis
    by (simp add: process_validated_report_def event_data_def dict_get_def evento_validado_def
        redis_con_def i j add_xp_def add_coins_def check_and_assign_badges_def
        BADGE_THRESHOLDS_def get_badges_def add_badge_def XP_PER_VALID_REPORT_def
        COINS_PER_VALID_REPORT_def incrby_def sadd_def Let_def)
qed

end
